theory Spec2Isabelle
  imports Complex_Main
begin

section \<open>Python values, errors and dictionaries\<close>

text \<open>
  The feature-extraction core of the bot-detection system is Python over floats, lists
  and dictionaries. Numbers are modelled as mathematical reals (Python ints and floats
  alike), so every statement below is about the exact arithmetic the code writes down,
  not about rounding. Exceptions are values: a function that can raise returns
  \<open>error + 'a\<close>, with \<open>Inl\<close> for the exception.
\<close>

datatype error = KeyError string | ZeroDivisionError | ValueError | TypeError

definition bindE :: "error + 'a \<Rightarrow> ('a \<Rightarrow> error + 'b) \<Rightarrow> error + 'b" where
  "bindE m f = (case m of Inl e \<Rightarrow> Inl e | Inr v \<Rightarrow> f v)"

text \<open>A list comprehension whose element expression can raise: the first exception wins.\<close>

fun mapE :: "('a \<Rightarrow> error + 'b) \<Rightarrow> 'a list \<Rightarrow> error + 'b list" where
  "mapE f [] = Inr []"
| "mapE f (v # vs) = bindE (f v) (\<lambda>w. bindE (mapE f vs) (\<lambda>ws. Inr (w # ws)))"

text \<open>\<open>d[k]\<close> on a field that may be absent, and \<open>d.get(k, default)\<close>.\<close>

definition getitem :: "'a option \<Rightarrow> string \<Rightarrow> error + 'a" where
  "getitem field k = (case field of None \<Rightarrow> Inl (KeyError k) | Some v \<Rightarrow> Inr v)"

definition dict_get :: "'a option \<Rightarrow> 'a \<Rightarrow> 'a" where
  "dict_get field dflt = (case field of None \<Rightarrow> dflt | Some v \<Rightarrow> v)"

text \<open>
  A Python dictionary keeps insertion order; \<open>d[k] = v\<close> overwrites in place when the key
  exists and appends otherwise. Feature mappings are association lists with that update.
\<close>

fun setitem :: "('k \<times> 'v) list \<Rightarrow> 'k \<Rightarrow> 'v \<Rightarrow> ('k \<times> 'v) list" where
  "setitem [] k v = [(k, v)]"
| "setitem (p # ps) k v = (if fst p = k then (k, v) # ps else p # setitem ps k v)"

definition dict_update :: "('k \<times> 'v) list \<Rightarrow> ('k \<times> 'v) list \<Rightarrow> ('k \<times> 'v) list" where
  "dict_update d other = fold (\<lambda>kv acc. setitem acc (fst kv) (snd kv)) other d"

definition keys_of :: "('k \<times> 'v) list \<Rightarrow> 'k set" where
  "keys_of d = fst ` set d"

text \<open>Python's \<open>/\<close> on numbers raises on a zero divisor.\<close>

definition py_truediv :: "real \<Rightarrow> real \<Rightarrow> error + real" where
  "py_truediv a b = (if b = 0 then Inl ZeroDivisionError else Inr (a / b))"

text \<open>\<open>max(xs)\<close>, \<open>min(xs)\<close>, \<open>np.max\<close> and \<open>np.min\<close> raise ValueError on an empty sequence.\<close>

fun py_max :: "real list \<Rightarrow> error + real" where
  "py_max [] = Inl ValueError"
| "py_max (v # vs) = Inr (fold max vs v)"

fun py_min :: "real list \<Rightarrow> error + real" where
  "py_min [] = Inl ValueError"
| "py_min (v # vs) = Inr (fold min vs v)"

text \<open>
  \<open>np.mean\<close> and \<open>np.std\<close> (population standard deviation, numpy's default
  \<open>ddof = 0\<close>). The code calls them on non-empty sequences only.
\<close>

definition np_mean :: "real list \<Rightarrow> real" where
  "np_mean vs = sum_list vs / real (length vs)"

definition np_std :: "real list \<Rightarrow> real" where
  "np_std vs = sqrt (np_mean (map (\<lambda>v. (v - np_mean vs)\<^sup>2) vs))"

definition np_diff :: "real list \<Rightarrow> real list" where
  "np_diff vs = map (\<lambda>i. vs ! (i + 1) - vs ! i) [0..<length vs - 1]"

text \<open>\<open>math.atan2(y, x)\<close>, the angle of the point \<open>(x, y)\<close> in \<open>(-\<pi>, \<pi>]\<close>.\<close>

definition atan2 :: "real \<Rightarrow> real \<Rightarrow> real" where
  "atan2 b a =
     (if 0 < a then arctan (b / a)
      else if a < 0 \<and> 0 \<le> b then arctan (b / a) + pi
      else if a < 0 \<and> b < 0 then arctan (b / a) - pi
      else if 0 < b then pi / 2
      else if b < 0 then - (pi / 2)
      else 0)"

section \<open>feature\_utils.py\<close>

subsection \<open>MouseTrajectoryUtils\<close>

record MouseMoveEvent =
  move_x :: "real option"
  move_y :: "real option"
  move_ts :: "real option"

text \<open>
  An event is a JSON object; the record keeps the keys the extractor reads, a field
  being \<open>None\<close> when the key is absent from the object.
\<close>

definition distance :: "real \<times> real \<Rightarrow> real \<times> real \<Rightarrow> real" where
  "distance pointOne pointTwo =
     (let (x1, y1) = pointOne;
          (x2, y2) = pointTwo;
          dx = x2 - x1;
          dy = y2 - y1
      in sqrt (dx\<^sup>2 + dy\<^sup>2))"

definition velocityPixelsPerSecond :: "real \<Rightarrow> real \<Rightarrow> error + real" where
  "velocityPixelsPerSecond distancePx timeMs =
     (if timeMs \<le> 0 then Inr 0
      else bindE (py_truediv distancePx timeMs) (\<lambda>q. Inr (q * 1000)))"

definition angleBetween :: "real \<times> real \<Rightarrow> real \<times> real \<Rightarrow> real \<times> real \<Rightarrow> real" where
  "angleBetween pointOne pointTwo pointThree =
     (let vectorOne = (fst pointOne - fst pointTwo, snd pointOne - snd pointTwo);
          vectorTwo = (fst pointThree - fst pointTwo, snd pointThree - snd pointTwo);
          dot = fst vectorOne * fst vectorTwo + snd vectorOne * snd vectorTwo;
          det = fst vectorOne * snd vectorTwo - snd vectorOne * fst vectorTwo;
          angle = atan2 det dot
      in \<bar>angle\<bar>)"

definition extractCoordinatesAndTimes ::
    "MouseMoveEvent list \<Rightarrow> error + ((real \<times> real) list \<times> real list)" where
  "extractCoordinatesAndTimes moves =
     (if length moves < 2 then Inr ([], [])
      else
        bindE (mapE (\<lambda>m. bindE (getitem (move_x m) ''x'') (\<lambda>vx.
                            bindE (getitem (move_y m) ''y'') (\<lambda>vy. Inr (vx, vy)))) moves)
          (\<lambda>coords.
        bindE (mapE (\<lambda>m. getitem (move_ts m) ''ts'') moves) (\<lambda>timestamps.
        let timeDeltas =
              map (\<lambda>i. timestamps ! (i + 1) - timestamps ! i) [0..<length timestamps - 1]
        in Inr (coords, timeDeltas))))"

subsection \<open>KeystrokeUtils\<close>

record KeyEvent =
  key_code :: "string option"
  key_ts :: "real option"

text \<open>
  \<open>collections.Counter\<close>: one entry per distinct item, in order of first occurrence,
  with the number of occurrences.
\<close>

fun counter_incr :: "'a \<Rightarrow> ('a \<times> nat) list \<Rightarrow> ('a \<times> nat) list" where
  "counter_incr a [] = [(a, 1)]"
| "counter_incr a (p # ps) =
     (if fst p = a then (a, snd p + 1) # ps else p # counter_incr a ps)"

definition Counter :: "'a list \<Rightarrow> ('a \<times> nat) list" where
  "Counter items = fold counter_incr items []"

definition calculateEntropy :: "'a list \<Rightarrow> real" where
  "calculateEntropy items =
     (if length items = 0 then 0
      else
        let counts = Counter items;
            total = length items
        in fold (\<lambda>count entropy.
                   let p = real count / real total
                   in if p > 0 then entropy - p * log 2 p else entropy)
             (map snd counts) 0)"

definition interKeyDelays :: "KeyEvent list \<Rightarrow> error + real list" where
  "interKeyDelays keys =
     (if length keys < 2 then Inr []
      else
        bindE (mapE (\<lambda>k. getitem (key_ts k) ''ts'') keys) (\<lambda>timestamps.
        Inr (map (\<lambda>i. timestamps ! (i + 1) - timestamps ! i) [0..<length timestamps - 1])))"

section \<open>feature\_extractor.py\<close>

record ClickEvent =
  click_ts :: "real option"
  click_button :: "int option"

text \<open>
  A batch as \<open>extractBatchFeatures\<close> reads it: each signal list may be absent (or null),
  which \<open>batchData.get(k, []) or []\<close> turns into the empty list.
\<close>

record BatchData =
  batch_mouseMoves :: "MouseMoveEvent list option"
  batch_clicks :: "ClickEvent list option"
  batch_keys :: "KeyEvent list option"

record FeatureExtractor =
  pauseDistThresh :: real
  pauseDurThresh :: real

definition FeatureExtractor_init :: "real \<Rightarrow> real \<Rightarrow> FeatureExtractor" where
  "FeatureExtractor_init pauseDistanceThresholdPx pauseDurationThresholdMs =
     \<lparr>pauseDistThresh = pauseDistanceThresholdPx, pauseDurThresh = pauseDurationThresholdMs\<rparr>"

text \<open>\<open>FeatureExtractor()\<close>: the default thresholds of \<open>__init__\<close>.\<close>

definition FeatureExtractor_default :: FeatureExtractor where
  "FeatureExtractor_default = FeatureExtractor_init 5 1000"

subsection \<open>detectPauses\<close>

text \<open>The local variables of \<open>detectPauses\<close> that the loop updates.\<close>

record PauseVars =
  pauseCount :: nat
  totalPauseMs :: real
  isPaused :: bool
  pauseStartMs :: real

text \<open>
  The \<open>if dist < self.pauseDistThresh: ... else: ...\<close> statement of the loop body, at
  segment \<open>i\<close>. The closing branch assigns \<open>totalPauseMs = pauseDuration\<close>.
\<close>

definition detectPauses_segment ::
    "FeatureExtractor \<Rightarrow> real list \<Rightarrow> nat \<Rightarrow> real \<Rightarrow> PauseVars \<Rightarrow> PauseVars" where
  "detectPauses_segment self timeDeltas i dist' st =
     (let elapsedUntilSegmentStart = sum_list (take i timeDeltas)
      in if dist' < pauseDistThresh self then
           (if \<not> isPaused st
            then st\<lparr>isPaused := True, pauseStartMs := elapsedUntilSegmentStart\<rparr>
            else st)
         else
           (if isPaused st then
              (let pauseEndMs = elapsedUntilSegmentStart;
                   pauseDuration = pauseEndMs - pauseStartMs st;
                   st = (if pauseDuration \<ge> pauseDurThresh self
                         then st\<lparr>pauseCount := pauseCount st + 1, totalPauseMs := pauseDuration\<rparr>
                         else st)
               in st\<lparr>isPaused := False\<rparr>)
            else st))"

text \<open>The \<open>if isPaused: ...\<close> statement under the comment "Handle ongoing pause at end".\<close>

definition detectPauses_ongoing :: "FeatureExtractor \<Rightarrow> real list \<Rightarrow> PauseVars \<Rightarrow> PauseVars" where
  "detectPauses_ongoing self timeDeltas st =
     (if isPaused st then
        (let totalElapsed = sum_list timeDeltas;
             pauseDuration = totalElapsed - pauseStartMs st
         in if pauseDuration \<ge> pauseDurThresh self
            then st\<lparr>pauseCount := pauseCount st + 1,
                    totalPauseMs := totalPauseMs st + pauseDuration\<rparr>
            else st)
      else st)"

text \<open>
  The \<open>for\<close> loop over \<open>enumerate(zip(distances, timeDeltas))\<close>. In the source the
  ongoing-pause statement and the \<open>return\<close> are indented into the loop body, so the
  first iteration returns and the remaining segments are never visited; with no segment
  at all the loop body never runs and the function falls off its end, returning Python's
  \<open>None\<close> (here \<open>None\<close>).
\<close>

fun detectPauses_loop ::
    "FeatureExtractor \<Rightarrow> real list \<Rightarrow> (nat \<times> real \<times> real) list \<Rightarrow> PauseVars \<Rightarrow> (nat \<times> real) option"
    where
  "detectPauses_loop self timeDeltas [] st = None"
| "detectPauses_loop self timeDeltas ((i, dist', _) # rest) st =
     (let st = detectPauses_segment self timeDeltas i dist' st;
          st = detectPauses_ongoing self timeDeltas st
      in Some (pauseCount st, totalPauseMs st))"

definition detectPauses ::
    "FeatureExtractor \<Rightarrow> (real \<times> real) list \<Rightarrow> real list \<Rightarrow> (nat \<times> real) option" where
  "detectPauses self coords timeDeltas =
     (let distances = map (\<lambda>i. distance (coords ! i) (coords ! (i + 1))) [0..<length coords - 1];
          st = \<lparr>pauseCount = 0, totalPauseMs = 0, isPaused = False, pauseStartMs = 0\<rparr>;
          segments = zip [0..<length (zip distances timeDeltas)] (zip distances timeDeltas)
      in detectPauses_loop self timeDeltas segments st)"

text \<open>
  The pause detector as the specification words it (section 4.3): one pass over all
  segments, a closing pause counted and accumulated when it lasts at least the duration
  threshold, and a pause still open after the last segment evaluated once.
\<close>

fun spec_pause_scan ::
    "FeatureExtractor \<Rightarrow> real list \<Rightarrow> (nat \<times> real \<times> real) list \<Rightarrow> PauseVars \<Rightarrow> PauseVars"
    where
  "spec_pause_scan self timeDeltas [] st = st"
| "spec_pause_scan self timeDeltas ((i, dist', _) # rest) st =
     (let elapsed = sum_list (take i timeDeltas);
          st = (if dist' < pauseDistThresh self then
                  (if isPaused st then st else st\<lparr>isPaused := True, pauseStartMs := elapsed\<rparr>)
                else if isPaused st then
                  (let duration = elapsed - pauseStartMs st;
                       st = (if duration \<ge> pauseDurThresh self
                             then st\<lparr>pauseCount := pauseCount st + 1,
                                     totalPauseMs := totalPauseMs st + duration\<rparr>
                             else st)
                   in st\<lparr>isPaused := False\<rparr>)
                else st)
      in spec_pause_scan self timeDeltas rest st)"

definition spec_detectPauses ::
    "FeatureExtractor \<Rightarrow> (real \<times> real) list \<Rightarrow> real list \<Rightarrow> nat \<times> real" where
  "spec_detectPauses self coords timeDeltas =
     (let distances = map (\<lambda>i. distance (coords ! i) (coords ! (i + 1))) [0..<length coords - 1];
          segments = zip [0..<length (zip distances timeDeltas)] (zip distances timeDeltas);
          st = spec_pause_scan self timeDeltas segments
                 \<lparr>pauseCount = 0, totalPauseMs = 0, isPaused = False, pauseStartMs = 0\<rparr>;
          st = (if isPaused st \<and> sum_list timeDeltas - pauseStartMs st \<ge> pauseDurThresh self
                then st\<lparr>pauseCount := pauseCount st + 1,
                        totalPauseMs := totalPauseMs st + (sum_list timeDeltas - pauseStartMs st)\<rparr>
                else st)
      in (pauseCount st, totalPauseMs st))"

subsection \<open>extractMouseFeatures\<close>

text \<open>
  Divisions whose divisor is \<open>max(\<dots>, 1)\<close>, a length known to be positive or a value
  just tested to be positive are written with HOL's \<open>/\<close>: the divisor is never zero there.
\<close>

definition extractMouseFeatures ::
    "FeatureExtractor \<Rightarrow> MouseMoveEvent list \<Rightarrow> error + (string \<times> real) list" where
  "extractMouseFeatures self moves =
     (let features = [] in
      if length moves < 2 then
        (let features = setitem features ''mouseMoveCount'' (real (length moves));
             features = setitem features ''mouseAvgVelocity'' 0;
             features = setitem features ''mouseStdVelocity'' 0;
             features = setitem features ''mouseMaxVelocity'' 0;
             features = setitem features ''mousePauseCount'' 0;
             features = setitem features ''mouseAvgPauseDurationMs'' 0;
             features = setitem features ''mousePathEfficiency'' 0;
             features = setitem features ''mouseAngularVelocityStd'' 0;
             features = setitem features ''mouseHoverTimeRatio'' 0;
             features = setitem features ''mouseHoverFrequency'' 0
         in Inr features)
      else
        bindE (extractCoordinatesAndTimes moves) (\<lambda>(coords, timeDeltas).
        let distances =
              map (\<lambda>i. distance (coords ! i) (coords ! (i + 1))) [0..<length coords - 1]
        in
        bindE (mapE (\<lambda>i. velocityPixelsPerSecond (distances ! i) (timeDeltas ! i))
                 [0..<length distances]) (\<lambda>velocities.
        let features = setitem features ''mouseMoveCount'' (real (length moves));
            features = setitem features ''mouseAvgVelocity''
                         (if velocities \<noteq> [] then np_mean velocities else 0);
            features = setitem features ''mouseStdVelocity''
                         (if length velocities > 1 then np_std velocities else 0)
        in
        bindE (if velocities \<noteq> [] then py_max velocities else Inr 0) (\<lambda>maxVelocity.
        let features = setitem features ''mouseMaxVelocity'' maxVelocity in
        (case detectPauses self coords timeDeltas of
           None \<Rightarrow> Inl TypeError
         | Some (pauseCount', totalPauseMs') \<Rightarrow>
             (let features = setitem features ''mousePauseCount'' (real pauseCount');
                  features = setitem features ''mouseAvgPauseDurationMs''
                               (totalPauseMs' / real (max pauseCount' 1));
                  totalDistance = sum_list distances;
                  straightLine = distance (coords ! 0) (last coords);
                  features = setitem features ''mousePathEfficiency''
                               (totalDistance / max straightLine 1);
                  features =
                    (if length coords \<ge> 3 then
                       (let angles =
                              map (\<lambda>i. angleBetween (coords ! i) (coords ! (i + 1)) (coords ! (i + 2)))
                                [0..<length coords - 2]
                        in setitem features ''mouseAngularVelocityStd''
                             (if length angles > 1 then np_std angles else 0))
                     else setitem features ''mouseAngularVelocityStd'' 0);
                  hoverMask = map (\<lambda>v. v < 10) velocities;
                  hoverTimeMs =
                    sum_list (map (\<lambda>i. timeDeltas ! i)
                                (filter (\<lambda>i. hoverMask ! i) [0..<length velocities]));
                  totalTimeMs = sum_list timeDeltas;
                  features = setitem features ''mouseHoverTimeRatio''
                               (hoverTimeMs / max totalTimeMs 1);
                  features = setitem features ''mouseHoverFrequency''
                               (real (length (filter (\<lambda>b. b) hoverMask)) /
                                real (max (length hoverMask) 1))
              in Inr features))))))"

text \<open>
  For statements about the path of a moves list: a move with all three keys present, the
  points of the moves, the summed length of the segments (\<open>sum(distances)\<close> of the
  source), and a path whose points lie on one line in one direction.
\<close>

definition well_formed_move :: "MouseMoveEvent \<Rightarrow> bool" where
  "well_formed_move m = (move_x m \<noteq> None \<and> move_y m \<noteq> None \<and> move_ts m \<noteq> None)"

definition coordinates :: "MouseMoveEvent list \<Rightarrow> (real \<times> real) list" where
  "coordinates moves = map (\<lambda>m. (the (move_x m), the (move_y m))) moves"

definition pathLength :: "(real \<times> real) list \<Rightarrow> real" where
  "pathLength ps = sum_list (map (\<lambda>i. distance (ps ! i) (ps ! (i + 1))) [0..<length ps - 1])"

definition collinear_monotonic :: "(real \<times> real) list \<Rightarrow> bool" where
  "collinear_monotonic ps =
     (\<exists>ox oy dx dy ts. sorted ts \<and> ps = map (\<lambda>t. (ox + t * dx, oy + t * dy)) ts)"

subsection \<open>extractClickFeatures\<close>

definition extractClickFeatures :: "ClickEvent list \<Rightarrow> error + (string \<times> real) list" where
  "extractClickFeatures clicks =
     (let features = [] in
      if length clicks = 0 then
        (let features = setitem features ''clickCount'' 0;
             features = setitem features ''clickRatePerSec'' 0;
             features = setitem features ''clickIntervalMeanMs'' 0;
             features = setitem features ''clickIntervalStdMs'' 0;
             features = setitem features ''clickIntervalMinMs'' 0;
             features = setitem features ''clickIntervalMaxMs'' 0;
             features = setitem features ''clickClusteringRatio'' 0;
             features = setitem features ''clickLeftRatio'' 0
         in Inr features)
      else
        (let features = setitem features ''clickCount'' (real (length clicks)) in
         bindE
           (if length clicks > 1 then
              bindE (mapE (\<lambda>c. getitem (click_ts c) ''ts'') clicks) (\<lambda>timestamps.
              let intervals = np_diff timestamps;
                  features = setitem features ''clickIntervalMeanMs'' (np_mean intervals);
                  features = setitem features ''clickIntervalStdMs''
                               (if length intervals > 1 then np_std intervals else 0)
              in
              bindE (py_min intervals) (\<lambda>minInterval.
              let features = setitem features ''clickIntervalMinMs'' minInterval in
              bindE (py_max intervals) (\<lambda>maxInterval.
              let features = setitem features ''clickIntervalMaxMs'' maxInterval;
                  rapid = length (filter (\<lambda>v. v < 500) intervals);
                  features = setitem features ''clickClusteringRatio''
                               (real rapid / real (length intervals));
                  totalDurationMs = last timestamps - timestamps ! 0
              in if totalDurationMs > 0
                 then Inr (setitem features ''clickRatePerSec''
                             (real (length clicks) / totalDurationMs * 1000))
                 else Inr (setitem features ''clickRatePerSec'' 0))))
            else
              (let features = setitem features ''clickRatePerSec'' 0;
                   features = setitem features ''clickIntervalMeanMs'' 0;
                   features = setitem features ''clickIntervalStdMs'' 0;
                   features = setitem features ''clickIntervalMinMs'' 0;
                   features = setitem features ''clickIntervalMaxMs'' 0;
                   features = setitem features ''clickClusteringRatio'' 0
               in Inr features))
           (\<lambda>features.
              let buttons = map (\<lambda>c. dict_get (click_button c) 0) clicks;
                  leftClicks = length (filter (\<lambda>b. b = 0) buttons);
                  features = setitem features ''clickLeftRatio''
                               (real leftClicks / real (length clicks))
              in Inr features)))"

subsection \<open>extractKeystrokeFeatures\<close>

definition extractKeystrokeFeatures :: "KeyEvent list \<Rightarrow> error + (string \<times> real) list" where
  "extractKeystrokeFeatures keys =
     (let features = [] in
      if length keys = 0 then
        (let features = setitem features ''keyCount'' 0;
             features = setitem features ''keyRatePerSec'' 0;
             features = setitem features ''keyInterKeyDelayMeanMs'' 0;
             features = setitem features ''keyInterKeyDelayStdMs'' 0;
             features = setitem features ''keyEntropy'' 0;
             features = setitem features ''keyRapidPresses'' 0
         in Inr features)
      else
        (let features = setitem features ''keyCount'' (real (length keys)) in
         bindE
           (if length keys > 1 then
              bindE (interKeyDelays keys) (\<lambda>delays.
              if length delays > 0 then
                (let features = setitem features ''keyInterKeyDelayMeanMs'' (np_mean delays);
                     features = setitem features ''keyInterKeyDelayStd''
                                  (if length delays > 1 then np_std delays else 0);
                     rapid = length (filter (\<lambda>v. v < 50) delays);
                     features = setitem features ''keyRapidPresses'' (real rapid)
                 in Inr features)
              else
                (let features = setitem features ''keyInterKeyDelayMeanMs'' 0;
                     features = setitem features ''keyInterKeyDelayStd'' 0;
                     features = setitem features ''keyRapidPresses'' 0
                 in Inr features))
            else
              (let features = setitem features ''keyInterKeyDelayMeanMs'' 0;
                   features = setitem features ''keyInterKeyDelayStd'' 0;
                   features = setitem features ''keyRapidPresses'' 0
               in Inr features))
           (\<lambda>features.
              let keyCodes = map (\<lambda>k. dict_get (key_code k) ''Unknown'') keys;
                  features = setitem features ''keyEntropy'' (calculateEntropy keyCodes)
              in
              bindE (mapE (\<lambda>k. getitem (key_ts k) ''ts'') keys) (\<lambda>timestamps.
              if length timestamps \<ge> 2 then
                bindE (py_max timestamps) (\<lambda>maxTs.
                bindE (py_min timestamps) (\<lambda>minTs.
                let durationMs = maxTs - minTs
                in Inr (setitem features ''keyRatePerSec''
                          (real (length keys) / max durationMs 1 * 1000))))
              else Inr (setitem features ''keyRatePerSec'' 0)))))"

subsection \<open>extractTemporalFeatures\<close>

definition extractTemporalFeatures ::
    "MouseMoveEvent list \<Rightarrow> ClickEvent list \<Rightarrow> KeyEvent list \<Rightarrow> error + (string \<times> real) list"
    where
  "extractTemporalFeatures moves clicks keys =
     (let features = [];
          allTimestamps = []
      in
      bindE (mapE (\<lambda>m. getitem (move_ts m) ''ts'') moves) (\<lambda>moveTs.
      let allTimestamps = allTimestamps @ moveTs in
      bindE (mapE (\<lambda>c. getitem (click_ts c) ''ts'') clicks) (\<lambda>clickTs.
      let allTimestamps = allTimestamps @ clickTs in
      bindE (mapE (\<lambda>k. getitem (key_ts k) ''ts'') keys) (\<lambda>keyTs.
      let allTimestamps = allTimestamps @ keyTs in
      bindE
        (if length allTimestamps \<ge> 2 then
           bindE (py_max allTimestamps) (\<lambda>maxTs.
           bindE (py_min allTimestamps) (\<lambda>minTs.
           let batchDurationMs = maxTs - minTs;
               features = setitem features ''batchDurationMs'' batchDurationMs;
               totalEvents = length moves + length clicks + length keys;
               features = setitem features ''eventRatePerSec''
                            (real totalEvents / max batchDurationMs 1 * 1000)
           in Inr features))
         else
           (let features = setitem features ''batchDurationMs'' 0;
                features = setitem features ''eventRatePerSec'' 0
            in Inr features))
        (\<lambda>features.
           let total = length moves + length clicks + length keys;
               features =
                 (if total > 0 then
                    (let props = [real (length moves) / real total,
                                  real (length clicks) / real total,
                                  real (length keys) / real total];
                         diversity = calculateEntropy props
                     in setitem features ''signalDiversityEntropy'' diversity)
                  else setitem features ''signalDiversityEntropy'' 0);
               features =
                 (if length moves > 0 then
                    (let features = setitem features ''clickToMoveRatio''
                                      (real (length clicks) / real (length moves));
                         features = setitem features ''keyToMoveRatio''
                                      (real (length keys) / real (length moves))
                     in features)
                  else
                    (let features = setitem features ''clickToMoveRatio'' 0;
                         features = setitem features ''keyToMoveRatio'' 0
                     in features))
           in Inr features)))))"

text \<open>
  The list \<open>props\<close> of \<open>extractTemporalFeatures\<close>, named so that statements can
  speak about the three shares.
\<close>

definition signalShares :: "'a list \<Rightarrow> 'b list \<Rightarrow> 'c list \<Rightarrow> real list" where
  "signalShares moves clicks keys =
     (let total = length moves + length clicks + length keys
      in [real (length moves) / real total, real (length clicks) / real total,
          real (length keys) / real total])"

subsection \<open>extractBatchFeatures\<close>

definition extractBatchFeatures ::
    "FeatureExtractor \<Rightarrow> BatchData \<Rightarrow> error + (string \<times> real) list" where
  "extractBatchFeatures self batchData =
     (let features = [];
          moves = dict_get (batch_mouseMoves batchData) [];
          clicks = dict_get (batch_clicks batchData) [];
          keys = dict_get (batch_keys batchData) [];
          features = setitem features ''batch_event_count''
                       (real (length moves + length clicks + length keys));
          features = setitem features ''has_mouse_moves'' (if length moves > 0 then 1 else 0);
          features = setitem features ''has_clicks'' (if length clicks > 0 then 1 else 0);
          features = setitem features ''has_keys'' (if length keys > 0 then 1 else 0)
      in
      bindE (extractMouseFeatures self moves) (\<lambda>mouseFeatures.
      let features = dict_update features mouseFeatures in
      bindE (extractClickFeatures clicks) (\<lambda>clickFeatures.
      let features = dict_update features clickFeatures in
      bindE (extractKeystrokeFeatures keys) (\<lambda>keystrokeFeatures.
      let features = dict_update features keystrokeFeatures in
      bindE (extractTemporalFeatures moves clicks keys) (\<lambda>temporalFeatures.
      let features = dict_update features temporalFeatures
      in Inr features)))))"

text \<open>
  For statements about malformed events: the three signal lists as \<open>extractBatchFeatures\<close>
  reads them, a batch in which some event has no timestamp, a batch of two or more moves
  in which some move has no x or no y, and the batch with the defaults of
  \<open>c.get('button', 0)\<close> and \<open>k.get('code', 'Unknown')\<close> written into the events that
  lack those keys.
\<close>

definition batch_moves :: "BatchData \<Rightarrow> MouseMoveEvent list" where
  "batch_moves b = dict_get (batch_mouseMoves b) []"

definition batch_clicks_list :: "BatchData \<Rightarrow> ClickEvent list" where
  "batch_clicks_list b = dict_get (batch_clicks b) []"

definition batch_keys_list :: "BatchData \<Rightarrow> KeyEvent list" where
  "batch_keys_list b = dict_get (batch_keys b) []"

definition lacks_timestamp :: "BatchData \<Rightarrow> bool" where
  "lacks_timestamp b =
     (list_ex (\<lambda>m. move_ts m = None) (batch_moves b) \<or>
      list_ex (\<lambda>c. click_ts c = None) (batch_clicks_list b) \<or>
      list_ex (\<lambda>k. key_ts k = None) (batch_keys_list b))"

definition lacks_coordinate :: "BatchData \<Rightarrow> bool" where
  "lacks_coordinate b =
     (2 \<le> length (batch_moves b) \<and>
      list_ex (\<lambda>m. move_x m = None \<or> move_y m = None) (batch_moves b))"

definition fill_defaults :: "BatchData \<Rightarrow> BatchData" where
  "fill_defaults b =
     b\<lparr>batch_clicks :=
         map_option (map (\<lambda>c. c\<lparr>click_button := Some (dict_get (click_button c) 0)\<rparr>))
           (batch_clicks b),
       batch_keys :=
         map_option (map (\<lambda>k. k\<lparr>key_code := Some (dict_get (key_code k) ''Unknown'')\<rparr>))
           (batch_keys b)\<rparr>"

section \<open>dataset\_builder.py\<close>

subsection \<open>The pandas operations the builder uses\<close>

text \<open>
  A table cell: a float (which may be NaN), a string, a timestamp or Python's \<open>None\<close>.
  A DataFrame is its column names in order and its rows, each row holding every column.
\<close>

datatype cell = NaN | Num real | Str string | Timestamp real | PyNone

record DataFrame =
  df_columns :: "string list"
  df_rows :: "(string \<times> cell) list list"

text \<open>\<open>pd.DataFrame()\<close>.\<close>

definition DataFrame_empty :: DataFrame where
  "DataFrame_empty = \<lparr>df_columns = [], df_rows = []\<rparr>"

text \<open>Distinct values in order of first occurrence (\<open>Series.unique\<close>, column order).\<close>

definition unique :: "'a list \<Rightarrow> 'a list" where
  "unique vs = fold (\<lambda>v acc. if v \<in> set acc then acc else acc @ [v]) vs []"

text \<open>
  \<open>pd.DataFrame(list of dicts)\<close>: the columns are the keys in order of first appearance,
  and a row lacking a key holds NaN there.
\<close>

definition DataFrame_from_dicts :: "(string \<times> cell) list list \<Rightarrow> DataFrame" where
  "DataFrame_from_dicts dicts =
     (let cols = unique (concat (map (map fst) dicts))
      in \<lparr>df_columns = cols,
          df_rows = map (\<lambda>d. map (\<lambda>c. (c, case map_of d c of None \<Rightarrow> NaN | Some v \<Rightarrow> v)) cols)
                      dicts\<rparr>)"

text \<open>\<open>df[col] = scalar\<close>.\<close>

definition df_assign :: "DataFrame \<Rightarrow> string \<Rightarrow> cell \<Rightarrow> DataFrame" where
  "df_assign df col v =
     \<lparr>df_columns = (if col \<in> set (df_columns df) then df_columns df else df_columns df @ [col]),
      df_rows = map (\<lambda>r. setitem r col v) (df_rows df)\<rparr>"

text \<open>\<open>df[col]\<close> raises KeyError for an unknown column.\<close>

definition df_getcol :: "DataFrame \<Rightarrow> string \<Rightarrow> error + cell list" where
  "df_getcol df col =
     (if col \<in> set (df_columns df)
      then Inr (map (\<lambda>r. case map_of r col of None \<Rightarrow> NaN | Some v \<Rightarrow> v) (df_rows df))
      else Inl (KeyError col))"

definition dropna :: "cell list \<Rightarrow> cell list" where
  "dropna vs = filter (\<lambda>v. v \<noteq> NaN \<and> v \<noteq> PyNone) vs"

text \<open>The numeric reductions of a Series raise TypeError on a non-numeric cell.\<close>

definition to_floats :: "cell list \<Rightarrow> error + real list" where
  "to_floats vs = mapE (\<lambda>v. case v of Num r \<Rightarrow> Inr r | _ \<Rightarrow> Inl TypeError) vs"

definition pd_mean :: "real list \<Rightarrow> cell" where
  "pd_mean vs = (if vs = [] then NaN else Num (sum_list vs / real (length vs)))"

text \<open>
  \<open>Series.std()\<close> with pandas' default \<open>ddof = 1\<close>: the sample standard deviation,
  divisor \<open>n - 1\<close>, which is NaN for fewer than two values.
\<close>

definition pd_std :: "real list \<Rightarrow> cell" where
  "pd_std vs =
     (if length vs \<le> 1 then NaN
      else Num (sqrt (sum_list (map (\<lambda>v. (v - sum_list vs / real (length vs))\<^sup>2) vs) /
                      real (length vs - 1))))"

definition pd_min :: "real list \<Rightarrow> cell" where
  "pd_min vs = (case vs of [] \<Rightarrow> NaN | v # rest \<Rightarrow> Num (fold min rest v))"

definition pd_max :: "real list \<Rightarrow> cell" where
  "pd_max vs = (case vs of [] \<Rightarrow> NaN | v # rest \<Rightarrow> Num (fold max rest v))"

text \<open>\<open>Series.quantile(q)\<close> with the default linear interpolation between order statistics.\<close>

definition pd_quantile :: "real \<Rightarrow> real list \<Rightarrow> cell" where
  "pd_quantile q vs =
     (if vs = [] then NaN
      else
        let ordered = sort vs;
            pos = q * real (length vs - 1);
            lo = nat \<lfloor>pos\<rfloor>;
            hi = min (lo + 1) (length vs - 1);
            frac = pos - real lo
        in Num (ordered ! lo + (ordered ! hi - ordered ! lo) * frac))"

text \<open>\<open>str.replace(old, new)\<close> for a non-empty \<open>old\<close>: every occurrence, left to right.\<close>

fun str_replace :: "string \<Rightarrow> string \<Rightarrow> string \<Rightarrow> string" where
  "str_replace old new [] = []"
| "str_replace old new (c # cs) =
     (if old \<noteq> [] \<and> take (length old) (c # cs) = old
      then new @ str_replace old new (drop (length old - 1) cs)
      else c # str_replace old new cs)"

text \<open>A loop whose body can raise: the first exception ends it.\<close>

fun foldE :: "('a \<Rightarrow> 'b \<Rightarrow> error + 'b) \<Rightarrow> 'a list \<Rightarrow> 'b \<Rightarrow> error + 'b" where
  "foldE f [] acc = Inr acc"
| "foldE f (v # vs) acc = bindE (f v acc) (foldE f vs)"

subsection \<open>DatasetBuilder\<close>

text \<open>
  One row of the frame \<open>SignalDataLoader.loadSignals\<close> returns. The builder is modelled
  from that frame on: reading the JSONL file is the loader's part. Writing a CSV file is
  an update of the file store, which the builders take and return; the store maps a path
  to the frame written there.
\<close>

record SignalRow =
  row_sessionID :: string
  row_timestamp :: real
  row_timestampRelativeMs :: int
  row_mouseMoves :: "MouseMoveEvent list"
  row_clicks :: "ClickEvent list"
  row_keys :: "KeyEvent list"

type_synonym filestore = "(string \<times> DataFrame) list"

definition buildBatchLevelDataset ::
    "FeatureExtractor \<Rightarrow> SignalRow list \<Rightarrow> string \<Rightarrow> filestore \<Rightarrow> (error + DataFrame) \<times> filestore"
    where
  "buildBatchLevelDataset extractor signalsDf outputCSVPath files =
     (if length signalsDf = 0 then (Inr DataFrame_empty, files)
      else
        (case mapE (\<lambda>row.
                let batchData = \<lparr>batch_mouseMoves = Some (row_mouseMoves row),
                                 batch_clicks = Some (row_clicks row),
                                 batch_keys = Some (row_keys row)\<rparr>
                in bindE (extractBatchFeatures extractor batchData) (\<lambda>feats.
                   let feats = map (\<lambda>kv. (fst kv, Num (snd kv))) feats;
                       feats = setitem feats ''sessionID'' (Str (row_sessionID row));
                       feats = setitem feats ''timestamp'' (Timestamp (row_timestamp row));
                       feats = setitem feats ''timestampRelativeMs''
                                 (Num (real_of_int (row_timestampRelativeMs row)))
                   in Inr feats)) signalsDf of
           Inl e \<Rightarrow> (Inl e, files)
         | Inr featureRows \<Rightarrow>
             (let featuresDf = DataFrame_from_dicts featureRows;
                  featuresDf = df_assign featuresDf ''label'' PyNone;
                  files = setitem files outputCSVPath featuresDf
              in (Inr featuresDf, files))))"

text \<open>The body of \<open>for col in featureCols\<close>: the six statistics of one column.\<close>

definition aggregateColumn ::
    "DataFrame \<Rightarrow> string \<Rightarrow> (string \<times> cell) list \<Rightarrow> error + (string \<times> cell) list" where
  "aggregateColumn sessionData col row =
     bindE (df_getcol sessionData col) (\<lambda>column.
     let values = dropna column in
     if length values > 0 then
       bindE (to_floats values) (\<lambda>values.
       let row = setitem row (col @ ''_mean'') (pd_mean values);
           row = setitem row (col @ ''_std'') (pd_std values);
           row = setitem row (col @ ''_min'') (pd_min values);
           row = setitem row (col @ ''_max'') (pd_max values);
           row = setitem row (col @ ''_p50'') (pd_quantile 0.5 values);
           row = setitem row (col @ ''_p95'') (pd_quantile 0.95 values)
       in Inr row)
     else
       (let row = setitem row (col @ ''_mean'') (Num 0);
            row = setitem row (col @ ''_std'') (Num 0);
            row = setitem row (col @ ''_min'') (Num 0);
            row = setitem row (col @ ''_max'') (Num 0);
            row = setitem row (col @ ''_p50'') (Num 0);
            row = setitem row (col @ ''_p95'') (Num 0)
        in Inr row))"

definition buildSessionLevelDataset ::
    "FeatureExtractor \<Rightarrow> SignalRow list \<Rightarrow> string \<Rightarrow> filestore \<Rightarrow> (error + DataFrame) \<times> filestore"
    where
  "buildSessionLevelDataset extractor signalsDf outputCSVPath files =
     (let batchCsvPath = str_replace ''.csv'' ''_batches.csv'' outputCSVPath;
          (batchResult, files) = buildBatchLevelDataset extractor signalsDf batchCsvPath files
      in case batchResult of
           Inl e \<Rightarrow> (Inl e, files)
         | Inr batchDf \<Rightarrow>
             if length (df_rows batchDf) = 0 then (Inr DataFrame_empty, files)
             else
               (let exclude = [''sessionID'', ''timestamp'', ''timestampRelativeMs'', ''label''];
                    featureCols = filter (\<lambda>c. c \<notin> set exclude) (df_columns batchDf)
                in case bindE (df_getcol batchDf ''sessionID'') (\<lambda>sessionIds.
                        mapE (\<lambda>sessionId.
                          let sessionData =
                                batchDf\<lparr>df_rows :=
                                  filter (\<lambda>r. map_of r ''sessionID'' = Some sessionId)
                                    (df_rows batchDf)\<rparr>;
                              row = [(''sessionID'', sessionId),
                                     (''batchCount'', Num (real (length (df_rows sessionData))))]
                          in bindE (foldE (aggregateColumn sessionData) featureCols row) (\<lambda>row.
                             Inr (setitem row ''label'' PyNone)))
                          (unique sessionIds)) of
                     Inl e \<Rightarrow> (Inl e, files)
                   | Inr sessionRows \<Rightarrow>
                       (let sessionDf = DataFrame_from_dicts sessionRows;
                            files = setitem files outputCSVPath sessionDf
                        in (Inr sessionDf, files))))"

section \<open>Properties of the utilities\<close>

subsection \<open>The entropy utility\<close>

lemma counter_incr_keys:
  "map fst (counter_incr a c) = (if a \<in> fst ` set c then map fst c else map fst c @ [a])"
  by (induction c) auto

lemma counter_incr_distinct: "distinct (map fst c) \<Longrightarrow> distinct (map fst (counter_incr a c))"
  by (simp add: counter_incr_keys)

lemma counter_incr_keyset: "fst ` set (counter_incr a c) = insert a (fst ` set c)"
proof -
  have "set (map fst (counter_incr a c)) = insert a (set (map fst c))"
    unfolding counter_incr_keys by auto
  then show ?thesis by simp
qed

lemma counter_incr_map_of:
  "map_of (counter_incr a c) =
     (map_of c)(a \<mapsto> (case map_of c a of None \<Rightarrow> 1 | Some n \<Rightarrow> n + 1))"
  by (induction c) (auto simp: fun_eq_iff)

lemma fold_counter_incr:
  "distinct (map fst c) \<Longrightarrow>
   distinct (map fst (fold counter_incr xs c)) \<and>
   fst ` set (fold counter_incr xs c) = fst ` set c \<union> set xs \<and>
   (\<forall>a. map_of (fold counter_incr xs c) a =
      (if a \<in> set xs
       then Some (count_list xs a + (case map_of c a of None \<Rightarrow> 0 | Some n \<Rightarrow> n))
       else map_of c a))"
proof (induction xs arbitrary: c)
  case Nil
  then show ?case by simp
next
  case (Cons x xs)
  have d: "distinct (map fst (counter_incr x c))"
    using Cons.prems by (rule counter_incr_distinct)
  show ?case
    using Cons.IH [OF d]
    by (auto simp: counter_incr_keyset counter_incr_map_of split: option.splits)
qed

lemma Counter_props:
  "distinct (map fst (Counter xs))" "fst ` set (Counter xs) = set xs"
  "a \<in> set xs \<Longrightarrow> map_of (Counter xs) a = Some (count_list xs a)"
  using fold_counter_incr [of "[]" xs] by (auto simp: Counter_def)

lemma Counter_entry:
  assumes "p \<in> set (Counter xs)"
  shows "fst p \<in> set xs" and "snd p = count_list xs (fst p)"
proof -
  show k: "fst p \<in> set xs" using assms Counter_props(2) [of xs] by force
  have "(fst p, snd p) \<in> set (Counter xs)" using assms by simp
  then have "map_of (Counter xs) (fst p) = Some (snd p)"
    using map_of_eq_Some_iff [OF Counter_props(1), of xs "fst p" "snd p"] by simp
  then show "snd p = count_list xs (fst p)" using Counter_props(3) [OF k] by simp
qed

lemma fold_minus: "fold (\<lambda>c e. e - g c) cs (e0::real) = e0 - sum_list (map g cs)"
  by (induction cs arbitrary: e0) (auto simp: algebra_simps)

lemma Counter_sum:
  "sum_list (map (\<lambda>p. g (snd p)) (Counter xs)) = (\<Sum>a\<in>set xs. g (count_list xs a))"
proof -
  let ?h = "\<lambda>a. g (count_list xs a)"
  have "map (\<lambda>p. g (snd p)) (Counter xs) = map (\<lambda>p. ?h (fst p)) (Counter xs)"
    by (rule map_cong) (simp_all add: Counter_entry(2))
  also have "\<dots> = map ?h (map fst (Counter xs))" by simp
  finally have "sum_list (map (\<lambda>p. g (snd p)) (Counter xs)) =
      sum_list (map ?h (map fst (Counter xs)))" by (rule arg_cong)
  also have "\<dots> = sum ?h (set (map fst (Counter xs)))"
    by (rule sum_list_distinct_conv_sum_set) (rule Counter_props(1))
  also have "set (map fst (Counter xs)) = set xs"
    using Counter_props(2) [of xs] by simp
  finally show ?thesis .
qed

lemma calculateEntropy_formula:
  "calculateEntropy xs =
     - (\<Sum>a\<in>set xs. (real (count_list xs a) / real (length xs)) *
                       log 2 (real (count_list xs a) / real (length xs)))"
proof (cases "xs = []")
  case True
  then show ?thesis by (simp add: calculateEntropy_def)
next
  case False
  let ?g = "\<lambda>c. (real c / real (length xs)) * log 2 (real c / real (length xs))"
  have pos: "0 < real c / real (length xs)" if "c \<in> set (map snd (Counter xs))" for c
  proof -
    from that obtain p where p: "p \<in> set (Counter xs)" and c: "c = snd p" by auto
    have "count_list xs (fst p) \<noteq> 0"
      using Counter_entry(1) [OF p] by (simp add: count_list_0_iff)
    then have "0 < c" using Counter_entry(2) [OF p] c by simp
    then show ?thesis using False by simp
  qed
  have "fold (\<lambda>count entropy. let p = real count / real (length xs)
                   in if p > 0 then entropy - p * log 2 p else entropy) (map snd (Counter xs)) 0
      = fold (\<lambda>c e. e - ?g c) (map snd (Counter xs)) 0"
    by (rule fold_cong) (use pos in \<open>auto simp: Let_def\<close>)
  also have "\<dots> = - sum_list (map ?g (map snd (Counter xs)))"
    by (simp add: fold_minus)
  also have "map ?g (map snd (Counter xs)) = map (\<lambda>p. ?g (snd p)) (Counter xs)" by simp
  also have "sum_list \<dots> = (\<Sum>a\<in>set xs. ?g (count_list xs a))" by (rule Counter_sum)
  finally show ?thesis using False by (simp add: calculateEntropy_def Let_def)
qed

lemma calculateEntropy_uniform:
  assumes ne: "ys \<noteq> []" and cnt: "\<forall>v\<in>set ys. count_list ys v = n"
  shows "calculateEntropy ys = log 2 (real (card (set ys)))"
proof -
  define k where "k = real (card (set ys))"
  have "0 < card (set ys)" using ne by (simp add: card_gt_0_iff)
  then have kpos: "0 < k" by (simp add: k_def)
  obtain y where y: "y \<in> set ys" using ne by (cases ys) auto
  have npos: "0 < n" using cnt y by (metis count_list_0_iff gr0I)
  have "length ys = (\<Sum>v\<in>set ys. count_list ys v)"
    by (simp add: sum_count_set)
  also have "\<dots> = card (set ys) * n" using cnt by simp
  finally have len: "real (length ys) = k * real n" by (simp add: k_def)
  have p: "real n / real (length ys) = 1 / k"
    using npos kpos by (simp add: len)
  have "calculateEntropy ys = - (\<Sum>v\<in>set ys. (1 / k) * log 2 (1 / k))"
    unfolding calculateEntropy_formula using cnt p by simp
  also have "\<dots> = - (k * ((1 / k) * log 2 (1 / k)))" by (simp add: k_def)
  also have "\<dots> = - log 2 (1 / k)" using kpos by simp
  also have "\<dots> = log 2 k" using kpos by (simp add: log_divide)
  finally show ?thesis by (simp add: k_def)
qed

lemma calculateEntropy_constant:
  assumes all: "\<forall>v\<in>set xs. v = c"
  shows "calculateEntropy xs = 0"
proof (cases "xs = []")
  case True
  then show ?thesis by (simp add: calculateEntropy_def)
next
  case False
  then have s: "set xs = {c}" using all by (cases xs) auto
  have "count_list xs c = length xs"
    using all by (induction xs) auto
  then have "\<forall>v\<in>set xs. count_list xs v = length xs" using s by simp
  from calculateEntropy_uniform [OF False this] show ?thesis by (simp add: s)
qed

text \<open>
  C5. The entropy utility groups its input by equality and returns
  \<open>- \<Sum> p * log2 p\<close> over the frequencies \<open>p = count / length\<close> of the distinct
  items. It is 0 for the empty input, 0 when all items are equal, and \<open>log2 k\<close> when
  the input consists of \<open>k\<close> distinct items that all occur equally often.
\<close>

theorem calculateEntropy_spec:
  "calculateEntropy xs =
     - (\<Sum>a\<in>set xs. (real (count_list xs a) / real (length xs)) *
                       log 2 (real (count_list xs a) / real (length xs))) \<and>
   calculateEntropy ([] :: 'a list) = 0 \<and>
   ((\<forall>v\<in>set xs. v = c) \<longrightarrow> calculateEntropy xs = 0) \<and>
   (xs \<noteq> [] \<and> (\<forall>v\<in>set xs. count_list xs v = m) \<longrightarrow>
      calculateEntropy xs = log 2 (real (card (set xs))))"
proof (intro conjI impI)
  show "calculateEntropy xs =
     - (\<Sum>a\<in>set xs. (real (count_list xs a) / real (length xs)) *
                       log 2 (real (count_list xs a) / real (length xs)))"
    by (rule calculateEntropy_formula)
  show "calculateEntropy ([] :: 'a list) = 0" by (simp add: calculateEntropy_def)
  show "calculateEntropy xs = 0" if "\<forall>v\<in>set xs. v = c"
    using that by (rule calculateEntropy_constant)
  show "calculateEntropy xs = log 2 (real (card (set xs)))"
    if "xs \<noteq> [] \<and> (\<forall>v\<in>set xs. count_list xs v = m)"
    using that calculateEntropy_uniform [of xs m] by blast
qed

theorem calculateEntropy_spec_witness:
  "calculateEntropy ([] :: string list) = 0 \<and>
   calculateEntropy [''KeyA'', ''KeyA'', ''KeyA''] = 0 \<and>
   calculateEntropy [''KeyA'', ''KeyB'', ''KeyA'', ''KeyB''] = 1"
proof -
  note t1 = calculateEntropy_spec [of "[''KeyA'', ''KeyA'', ''KeyA'']" "''KeyA''" 0]
  note t2 = calculateEntropy_spec [of "[''KeyA'', ''KeyB'', ''KeyA'', ''KeyB'']" "''KeyA''" 2]
  have a: "calculateEntropy ([] :: string list) = 0" using t1 by blast
  have "\<forall>v\<in>set [''KeyA'', ''KeyA'', ''KeyA'']. v = ''KeyA''" by simp
  with t1 have b: "calculateEntropy [''KeyA'', ''KeyA'', ''KeyA''] = 0"
    by blast
  have "[''KeyA'', ''KeyB'', ''KeyA'', ''KeyB''] \<noteq> [] \<and>
        (\<forall>v\<in>set [''KeyA'', ''KeyB'', ''KeyA'', ''KeyB''].
           count_list [''KeyA'', ''KeyB'', ''KeyA'', ''KeyB''] v = 2)"
    by simp
  with t2 have "calculateEntropy [''KeyA'', ''KeyB'', ''KeyA'', ''KeyB''] =
      log 2 (real (card (set [''KeyA'', ''KeyB'', ''KeyA'', ''KeyB''])))"
    by blast
  then have c: "calculateEntropy [''KeyA'', ''KeyB'', ''KeyA'', ''KeyB''] = 1"
    by (simp add: card_insert_if)
  from a b c show ?thesis by blast
qed

subsection \<open>The velocity utility\<close>

text \<open>
  C7. For every distance and time delta the velocity utility returns a value (it never
  raises ZeroDivisionError): 0 when the time delta is at most 0 and
  \<open>distance / deltaMs * 1000\<close> otherwise; for a non-negative distance the value is
  non-negative.
\<close>

theorem velocityPixelsPerSecond_safe:
  "velocityPixelsPerSecond d t = Inr (if t \<le> 0 then 0 else d / t * 1000) \<and>
   (\<exists>v. velocityPixelsPerSecond d t = Inr v \<and> (0 \<le> d \<longrightarrow> 0 \<le> v))"
  by (simp add: velocityPixelsPerSecond_def py_truediv_def bindE_def)

theorem velocityPixelsPerSecond_safe_witness:
  "velocityPixelsPerSecond 5 0 = Inr 0 \<and> velocityPixelsPerSecond 5 100 = Inr 50 \<and> (0::real) \<le> 5"
  using velocityPixelsPerSecond_safe [of 5 0] velocityPixelsPerSecond_safe [of 5 100]
  by simp

section \<open>Properties of the pause detector\<close>

lemma distance_horizontal: "distance (a, c) (b, c) = \<bar>b - a\<bar>"
  by (simp add: distance_def)

text \<open>
  C1. The claim is that \<open>detectPauses\<close> returns what the two-state machine of the
  specification computes in one pass over all segments. The loop of the source returns at
  the end of its first iteration. On the three points (0,0), (100,0), (100,0) with time
  deltas 100 ms and 2000 ms the second segment opens a pause that lasts 2000 ms until the
  end of the sequence: the specified machine reports one pause of 2000 ms, the code
  reports none.
\<close>

theorem detectPauses_returns_after_first_segment:
  "detectPauses FeatureExtractor_default [(0, 0), (100, 0), (100, 0)] [100, 2000] = Some (0, 0) \<and>
   spec_detectPauses FeatureExtractor_default [(0, 0), (100, 0), (100, 0)] [100, 2000] = (1, 2000)"
  by (simp add: detectPauses_def spec_detectPauses_def FeatureExtractor_default_def
      FeatureExtractor_init_def detectPauses_segment_def detectPauses_ongoing_def
      distance_horizontal upt_rec numeral_2_eq_2 numeral_3_eq_3)

section \<open>Properties of the mouse extractor\<close>

text \<open>
  C6. For a moves list with fewer than two elements the mouse extractor returns
  \<open>mouseMoveCount\<close> equal to the length of the input and every other mouse feature
  equal to 0.
\<close>

theorem extractMouseFeatures_degenerate:
  "length moves < 2 \<Longrightarrow>
   extractMouseFeatures self moves =
     Inr [(''mouseMoveCount'', real (length moves)),
          (''mouseAvgVelocity'', 0),
          (''mouseStdVelocity'', 0),
          (''mouseMaxVelocity'', 0),
          (''mousePauseCount'', 0),
          (''mouseAvgPauseDurationMs'', 0),
          (''mousePathEfficiency'', 0),
          (''mouseAngularVelocityStd'', 0),
          (''mouseHoverTimeRatio'', 0),
          (''mouseHoverFrequency'', 0)]"
  by (simp add: extractMouseFeatures_def)

theorem extractMouseFeatures_degenerate_witness:
  "length [\<lparr>move_x = Some 3, move_y = Some 4, move_ts = Some 1000\<rparr>] < 2 \<and>
   extractMouseFeatures FeatureExtractor_default
       [\<lparr>move_x = Some 3, move_y = Some 4, move_ts = Some 1000\<rparr>] =
     Inr [(''mouseMoveCount'', 1),
          (''mouseAvgVelocity'', 0),
          (''mouseStdVelocity'', 0),
          (''mouseMaxVelocity'', 0),
          (''mousePauseCount'', 0),
          (''mouseAvgPauseDurationMs'', 0),
          (''mousePathEfficiency'', 0),
          (''mouseAngularVelocityStd'', 0),
          (''mouseHoverTimeRatio'', 0),
          (''mouseHoverFrequency'', 0)]"
  using extractMouseFeatures_degenerate
    [of "[\<lparr>move_x = Some 3, move_y = Some 4, move_ts = Some 1000\<rparr>]" FeatureExtractor_default]
  by simp

lemma mapE_total: "(\<And>v. v \<in> set vs \<Longrightarrow> f v = Inr (g v)) \<Longrightarrow> mapE f vs = Inr (map g vs)"
  by (induction vs) (simp_all add: bindE_def)

lemma map_of_setitem: "map_of (setitem d k v) k' = (if k' = k then Some v else map_of d k')"
  by (induction d) auto

lemma extractCoordinatesAndTimes_well_formed:
  assumes "list_all well_formed_move moves" and "2 \<le> length moves"
  shows "extractCoordinatesAndTimes moves =
           Inr (coordinates moves,
                map (\<lambda>i. map (\<lambda>m. the (move_ts m)) moves ! (i + 1) -
                         map (\<lambda>m. the (move_ts m)) moves ! i)
                  [0..<length (map (\<lambda>m. the (move_ts m)) moves) - 1])"
proof -
  have c: "mapE (\<lambda>m. bindE (getitem (move_x m) ''x'') (\<lambda>vx.
                    bindE (getitem (move_y m) ''y'') (\<lambda>vy. Inr (vx, vy)))) moves =
           Inr (coordinates moves)"
    unfolding coordinates_def
    by (rule mapE_total)
      (use assms(1) in \<open>auto simp: list_all_iff well_formed_move_def bindE_def getitem_def\<close>)
  have t: "mapE (\<lambda>m. getitem (move_ts m) ''ts'') moves = Inr (map (\<lambda>m. the (move_ts m)) moves)"
    by (rule mapE_total)
      (use assms(1) in \<open>auto simp: list_all_iff well_formed_move_def getitem_def\<close>)
  have n: "\<not> length moves < 2" using assms(2) by simp
  show ?thesis
    unfolding extractCoordinatesAndTimes_def c t
    by (simp only: n if_False bindE_def sum.case Let_def)
qed

lemma velocities_total:
  "mapE (\<lambda>i. velocityPixelsPerSecond (ds ! i) (ts ! i)) is =
     Inr (map (\<lambda>i. if ts ! i \<le> 0 then 0 else ds ! i / ts ! i * 1000) is)"
  by (rule mapE_total) (simp add: velocityPixelsPerSecond_def py_truediv_def bindE_def)

lemma py_max_nonempty: "vs \<noteq> [] \<Longrightarrow> \<exists>v. py_max vs = Inr v"
  by (cases vs) simp_all

lemma detectPauses_loop_Cons: "\<exists>r. detectPauses_loop self tds (seg # rest) st = Some r"
  by (cases seg) (simp add: Let_def)

lemma detectPauses_nonempty:
  assumes "2 \<le> length coords" and "timeDeltas \<noteq> []"
  shows "\<exists>r. detectPauses self coords timeDeltas = Some r"
proof -
  define ds where "ds = map (\<lambda>i. distance (coords ! i) (coords ! (i + 1))) [0..<length coords - 1]"
  define z where "z = zip ds timeDeltas"
  have "ds \<noteq> []" using assms(1) by (simp add: ds_def)
  then have "z \<noteq> []"
    using assms(2) unfolding z_def by (cases ds; cases timeDeltas) auto
  then have "length (zip [0..<length z] z) \<noteq> 0" by simp
  then obtain seg rest where "zip [0..<length z] z = seg # rest"
    by (cases "zip [0..<length z] z") auto
  then show ?thesis
    unfolding detectPauses_def ds_def [symmetric] Let_def z_def [symmetric]
    using detectPauses_loop_Cons by simp
qed

lemma setitem_if: "(if c then setitem d k a else setitem d k b) = setitem d k (if c then a else b)"
  by simp

lemma extractMouseFeatures_unfold:
  assumes "\<not> length moves < 2"
    and "extractCoordinatesAndTimes moves = Inr (coords, timeDeltas)"
    and "mapE (\<lambda>i. velocityPixelsPerSecond
                     (map (\<lambda>i. distance (coords ! i) (coords ! (i + 1))) [0..<length coords - 1] ! i)
                     (timeDeltas ! i))
           [0..<length (map (\<lambda>i. distance (coords ! i) (coords ! (i + 1))) [0..<length coords - 1])] =
         Inr velocities"
    and "velocities \<noteq> []"
    and "py_max velocities = Inr maxVelocity"
    and "detectPauses self coords timeDeltas = Some (pc, tp)"
  shows "case extractMouseFeatures self moves of
           Inl e \<Rightarrow> False
         | Inr features \<Rightarrow>
             map_of features ''mousePathEfficiency'' =
               Some (sum_list (map (\<lambda>i. distance (coords ! i) (coords ! (i + 1)))
                                 [0..<length coords - 1]) /
                     max (distance (coords ! 0) (last coords)) 1)"
  unfolding extractMouseFeatures_def Let_def
  apply (simp only: assms if_False if_True bindE_def sum.case prod.case option.case
      not_False_eq_True setitem_if)
  apply (simp only: map_of_setitem)
  apply simp
  done

lemma extractMouseFeatures_path_efficiency:
  assumes "2 \<le> length moves" and "list_all well_formed_move moves"
  shows "\<exists>features. extractMouseFeatures self moves = Inr features \<and>
           map_of features ''mousePathEfficiency'' =
             Some (pathLength (coordinates moves) /
                   max (distance (coordinates moves ! 0) (last (coordinates moves))) 1)"
proof -
  define cs where "cs = coordinates moves"
  define tds where "tds = map (\<lambda>i. map (\<lambda>m. the (move_ts m)) moves ! (i + 1) -
                         map (\<lambda>m. the (move_ts m)) moves ! i)
                  [0..<length (map (\<lambda>m. the (move_ts m)) moves) - 1]"
  define ds where "ds = map (\<lambda>i. distance (cs ! i) (cs ! (i + 1))) [0..<length cs - 1]"
  define vs where "vs = map (\<lambda>i. if tds ! i \<le> 0 then 0 else ds ! i / tds ! i * 1000) [0..<length ds]"
  have n: "\<not> length moves < 2" using assms(1) by simp
  have ect: "extractCoordinatesAndTimes moves = Inr (cs, tds)"
    unfolding cs_def tds_def by (rule extractCoordinatesAndTimes_well_formed [OF assms(2,1)])
  have len: "length cs = length moves" by (simp add: cs_def coordinates_def)
  have vel: "mapE (\<lambda>i. velocityPixelsPerSecond (ds ! i) (tds ! i)) [0..<length ds] = Inr vs"
    unfolding vs_def by (rule velocities_total)
  have vne: "vs \<noteq> []" using assms(1) len by (simp add: vs_def ds_def)
  then obtain mx where mx: "py_max vs = Inr mx" using py_max_nonempty by blast
  have "tds \<noteq> []" using assms(1) by (simp add: tds_def)
  then obtain pc tp where dp: "detectPauses self cs tds = Some (pc, tp)"
    using detectPauses_nonempty [of cs tds self] assms(1) len by auto
  from extractMouseFeatures_unfold [OF n ect vel [unfolded ds_def] vne mx dp]
  show ?thesis
    unfolding pathLength_def cs_def by (auto split: sum.splits)
qed

lemma distance_triangle: "distance p r \<le> distance p q + distance q r"
proof -
  obtain px py qx qy rx ry where [simp]: "p = (px, py)" "q = (qx, qy)" "r = (rx, ry)"
    by (cases p, cases q, cases r) auto
  show ?thesis
    using real_sqrt_sum_squares_triangle_ineq [of "qx - px" "rx - qx" "qy - py" "ry - qy"]
    by (simp add: distance_def)
qed

lemma pathLength_Cons2: "pathLength (p # q # ps) = distance p q + pathLength (q # ps)"
proof -
  have "[0..<Suc (length ps)] = 0 # map Suc [0..<length ps]"
    by (simp add: upt_conv_Cons map_Suc_upt del: upt_Suc)
  then show ?thesis
    by (simp add: pathLength_def comp_def del: upt_Suc)
qed

lemma pathLength_single: "pathLength [p] = 0"
  by (simp add: pathLength_def)

lemma distance_self: "distance p p = 0"
  by (cases p) (simp add: distance_def)

lemma pathLength_ge_straight: "distance p (last (p # ps)) \<le> pathLength (p # ps)"
proof (induction ps arbitrary: p)
  case Nil
  then show ?case by (simp add: pathLength_single distance_self)
next
  case (Cons q ps)
  have "distance p (last (q # ps)) \<le> distance p q + distance q (last (q # ps))"
    by (rule distance_triangle)
  also have "\<dots> \<le> distance p q + pathLength (q # ps)"
    using Cons.IH [of q] by simp
  finally show ?case by (simp add: pathLength_Cons2)
qed

lemma distance_on_line:
  "distance (ox + s * dx, oy + s * dy) (ox + t * dx, oy + t * dy) = \<bar>t - s\<bar> * sqrt (dx\<^sup>2 + dy\<^sup>2)"
proof -
  have "(ox + t * dx - (ox + s * dx))\<^sup>2 + (oy + t * dy - (oy + s * dy))\<^sup>2 =
        (t - s)\<^sup>2 * (dx\<^sup>2 + dy\<^sup>2)"
    by (simp add: power2_eq_square algebra_simps)
  then show ?thesis
    by (simp add: distance_def real_sqrt_mult)
qed

lemma pathLength_on_line:
  "sorted (t # ts) \<Longrightarrow>
   pathLength (map (\<lambda>u. (ox + u * dx, oy + u * dy)) (t # ts)) =
     (last (t # ts) - t) * sqrt (dx\<^sup>2 + dy\<^sup>2)"
proof (induction ts arbitrary: t)
  case Nil
  then show ?case by (simp add: pathLength_single)
next
  case (Cons u ts)
  have tu: "t \<le> u" and s: "sorted (u # ts)" using Cons.prems by simp_all
  have "pathLength (map (\<lambda>u. (ox + u * dx, oy + u * dy)) (t # u # ts)) =
        distance (ox + t * dx, oy + t * dy) (ox + u * dx, oy + u * dy) +
        pathLength (map (\<lambda>u. (ox + u * dx, oy + u * dy)) (u # ts))"
    by (simp add: pathLength_Cons2)
  also have "\<dots> = (u - t) * sqrt (dx\<^sup>2 + dy\<^sup>2) + (last (u # ts) - u) * sqrt (dx\<^sup>2 + dy\<^sup>2)"
    using tu Cons.IH [OF s] by (simp add: distance_on_line)
  finally show ?case by (simp add: algebra_simps)
qed

lemma collinear_monotonic_straight:
  assumes "collinear_monotonic ps" and "ps \<noteq> []"
  shows "pathLength ps = distance (ps ! 0) (last ps)"
proof -
  from assms(1) obtain ox oy dx dy ts where
    s: "sorted ts" and ps: "ps = map (\<lambda>t. (ox + t * dx, oy + t * dy)) ts"
    unfolding collinear_monotonic_def by blast
  from assms(2) ps obtain t ts' where ts: "ts = t # ts'" by (cases ts) auto
  have le: "t \<le> last (t # ts')"
    using s unfolding ts by (cases ts' rule: rev_cases) auto
  have "pathLength ps = (last (t # ts') - t) * sqrt (dx\<^sup>2 + dy\<^sup>2)"
    unfolding ps ts using s [unfolded ts] by (rule pathLength_on_line)
  moreover have "ps ! 0 = (ox + t * dx, oy + t * dy)" by (simp add: ps ts)
  moreover have "last ps = (ox + last (t # ts') * dx, oy + last (t # ts') * dy)"
    unfolding ps ts by (subst last_map) simp_all
  moreover note distance_on_line [of ox t dx oy dy "last (t # ts')"]
  ultimately show ?thesis using le by simp
qed

lemma distance_nonneg: "0 \<le> distance p q"
  by (cases p, cases q) (simp add: distance_def)

text \<open>
  C4, as the code has it. For a moves list of length at least 2 whose moves carry x, y
  and ts, the extractor returns, and \<open>mousePathEfficiency\<close> is the path length divided
  by \<open>max(straightLine, 1)\<close>. The value lies between 0 and the path length, so it is
  below 1 for every path shorter than 1 px. In the exact arithmetic of this model it is
  at least 1 exactly when the path length is at least 1 px, and for a collinear,
  monotonic path it is \<open>min(straightLine, 1)\<close>: exactly 1 when the straight-line distance
  is at least 1 px. The statement is about the reals: in double precision the summed
  segment lengths can fall short of the straight-line distance by rounding, and the
  computed ratio can then lie just below 1.
\<close>

theorem mousePathEfficiency_amended:
  assumes "2 \<le> length moves" and "list_all well_formed_move moves"
  shows "\<exists>features e.
           extractMouseFeatures self moves = Inr features \<and>
           map_of features ''mousePathEfficiency'' = Some e \<and>
           e = pathLength (coordinates moves) /
               max (distance (coordinates moves ! 0) (last (coordinates moves))) 1 \<and>
           0 \<le> e \<and> e \<le> pathLength (coordinates moves) \<and>
           (1 \<le> e) = (1 \<le> pathLength (coordinates moves)) \<and>
           (collinear_monotonic (coordinates moves) \<longrightarrow>
              e = min (distance (coordinates moves ! 0) (last (coordinates moves))) 1)"
proof -
  define cs where "cs = coordinates moves"
  define straight where "straight = distance (cs ! 0) (last cs)"
  define total where "total = pathLength cs"
  define e where "e = total / max straight 1"
  from extractMouseFeatures_path_efficiency [OF assms, of self]
  obtain features where f: "extractMouseFeatures self moves = Inr features"
    and m: "map_of features ''mousePathEfficiency'' = Some e"
    unfolding e_def total_def straight_def cs_def by blast
  have ne: "cs \<noteq> []" using assms(1) by (auto simp: cs_def coordinates_def)
  then obtain p ps where cs: "cs = p # ps" by (cases cs) auto
  have s0: "0 \<le> straight" unfolding straight_def by (rule distance_nonneg)
  have ge: "straight \<le> total"
    unfolding straight_def total_def cs using pathLength_ge_straight [of p ps] by simp
  have t0: "0 \<le> total" using s0 ge by simp
  have e0: "0 \<le> e" using t0 by (simp add: e_def)
  have le: "e \<le> total"
  proof -
    have "total / max straight 1 \<le> total / 1"
      using t0 by (intro divide_left_mono) simp_all
    then show ?thesis by (simp add: e_def)
  qed
  have iff: "(1 \<le> e) = (1 \<le> total)"
  proof (cases "1 \<le> straight")
    case True
    then have "e = total / straight" by (simp add: e_def max_def)
    then show ?thesis using True ge by simp
  next
    case False
    then have "e = total" by (simp add: e_def max_def)
    then show ?thesis by simp
  qed
  have col: "e = min straight 1" if "collinear_monotonic cs"
  proof -
    have "total = straight"
      unfolding straight_def total_def by (rule collinear_monotonic_straight [OF that ne])
    then show ?thesis by (simp add: e_def max_def min_def)
  qed
  show ?thesis
    using f m e0 le iff col unfolding e_def total_def straight_def cs_def by blast
qed

theorem mousePathEfficiency_amended_witness:
  "2 \<le> length [\<lparr>move_x = Some 0, move_y = Some 0, move_ts = Some 0\<rparr>,
                 \<lparr>move_x = Some 3, move_y = Some 0, move_ts = Some 100\<rparr>,
                 \<lparr>move_x = Some 7, move_y = Some 0, move_ts = Some 200\<rparr>] \<and>
   list_all well_formed_move
     [\<lparr>move_x = Some 0, move_y = Some 0, move_ts = Some 0\<rparr>,
      \<lparr>move_x = Some 3, move_y = Some 0, move_ts = Some 100\<rparr>,
      \<lparr>move_x = Some 7, move_y = Some 0, move_ts = Some 200\<rparr>] \<and>
   collinear_monotonic (coordinates
     [\<lparr>move_x = Some 0, move_y = Some 0, move_ts = Some 0\<rparr>,
      \<lparr>move_x = Some 3, move_y = Some 0, move_ts = Some 100\<rparr>,
      \<lparr>move_x = Some 7, move_y = Some 0, move_ts = Some 200\<rparr>]) \<and>
   (\<exists>features.
      extractMouseFeatures FeatureExtractor_default
        [\<lparr>move_x = Some 0, move_y = Some 0, move_ts = Some 0\<rparr>,
         \<lparr>move_x = Some 3, move_y = Some 0, move_ts = Some 100\<rparr>,
         \<lparr>move_x = Some 7, move_y = Some 0, move_ts = Some 200\<rparr>] = Inr features \<and>
      map_of features ''mousePathEfficiency'' = Some 1)"
proof -
  define M where "M = [\<lparr>move_x = Some 0, move_y = Some 0, move_ts = Some 0\<rparr>,
             \<lparr>move_x = Some 3, move_y = Some 0, move_ts = Some 100\<rparr>,
             \<lparr>move_x = Some 7, move_y = Some 0, move_ts = Some (200::real)\<rparr>]"
  have l: "2 \<le> length M" by (simp add: M_def)
  have w: "list_all well_formed_move M" by (simp add: M_def well_formed_move_def)
  have cs: "coordinates M = [(0, 0), (3, 0), (7, 0)]" by (simp add: M_def coordinates_def)
  have c: "collinear_monotonic (coordinates M)"
    unfolding cs collinear_monotonic_def
    by (rule exI [of _ 0], rule exI [of _ 0], rule exI [of _ 1], rule exI [of _ 0],
        rule exI [of _ "[0, 3, 7]"]) simp
  have s: "min (distance (coordinates M ! 0) (last (coordinates M))) 1 = 1"
    by (simp add: cs distance_horizontal)
  from mousePathEfficiency_amended [OF l w, of FeatureExtractor_default]
  obtain features e where
    f: "extractMouseFeatures FeatureExtractor_default M = Inr features" and
    m: "map_of features ''mousePathEfficiency'' = Some e" and
    i: "collinear_monotonic (coordinates M) \<longrightarrow>
          e = min (distance (coordinates M ! 0) (last (coordinates M))) 1"
    by blast
  from i s c have "e = 1" by simp
  with f m have "\<exists>features. extractMouseFeatures FeatureExtractor_default M = Inr features \<and>
      map_of features ''mousePathEfficiency'' = Some 1" by blast
  with l w c have
    "2 \<le> length M \<and> list_all well_formed_move M \<and> collinear_monotonic (coordinates M) \<and>
     (\<exists>features. extractMouseFeatures FeatureExtractor_default M = Inr features \<and>
        map_of features ''mousePathEfficiency'' = Some 1)"
    by simp
  then show ?thesis unfolding M_def .
qed

text \<open>
  C4, as stated, fails: the two-point path from (0,0) to (0.5,0) is collinear and
  monotonic, and its \<open>mousePathEfficiency\<close> is 0.5.
\<close>

theorem mousePathEfficiency_counterexample:
  "extractMouseFeatures FeatureExtractor_default
     [\<lparr>move_x = Some 0, move_y = Some 0, move_ts = Some 0\<rparr>,
      \<lparr>move_x = Some (1 / 2), move_y = Some 0, move_ts = Some 100\<rparr>] =
   Inr [(''mouseMoveCount'', 2), (''mouseAvgVelocity'', 5), (''mouseStdVelocity'', 0),
        (''mouseMaxVelocity'', 5), (''mousePauseCount'', 0), (''mouseAvgPauseDurationMs'', 0),
        (''mousePathEfficiency'', 1 / 2), (''mouseAngularVelocityStd'', 0),
        (''mouseHoverTimeRatio'', 1), (''mouseHoverFrequency'', 1)] \<and>
   \<not> (1 :: real) \<le> 1 / 2"
  by (simp add: extractMouseFeatures_def extractCoordinatesAndTimes_def bindE_def getitem_def
      distance_horizontal velocityPixelsPerSecond_def py_truediv_def np_mean_def
      detectPauses_def detectPauses_segment_def detectPauses_ongoing_def
      FeatureExtractor_default_def FeatureExtractor_init_def)

section \<open>Properties of the dataset builders\<close>

text \<open>
  C9. When no batch was loaded, the batch-level and the session-level builder both
  return the empty frame, not an error (and write no file).
\<close>

theorem builders_empty_input:
  "buildBatchLevelDataset extractor [] batchPath files = (Inr DataFrame_empty, files) \<and>
   buildSessionLevelDataset extractor [] sessionPath files = (Inr DataFrame_empty, files)"
  by (simp add: buildBatchLevelDataset_def buildSessionLevelDataset_def DataFrame_empty_def)

section \<open>Properties of the batch feature builder\<close>

lemma extractClickFeatures_Nil:
  "extractClickFeatures [] =
     Inr [(''clickCount'', 0), (''clickRatePerSec'', 0), (''clickIntervalMeanMs'', 0),
          (''clickIntervalStdMs'', 0), (''clickIntervalMinMs'', 0), (''clickIntervalMaxMs'', 0),
          (''clickClusteringRatio'', 0), (''clickLeftRatio'', 0)]"
  by (simp add: extractClickFeatures_def)

lemma extractKeystrokeFeatures_Nil:
  "extractKeystrokeFeatures [] =
     Inr [(''keyCount'', 0), (''keyRatePerSec'', 0), (''keyInterKeyDelayMeanMs'', 0),
          (''keyInterKeyDelayStdMs'', 0), (''keyEntropy'', 0), (''keyRapidPresses'', 0)]"
  by (simp add: extractKeystrokeFeatures_def)

lemma extractKeystrokeFeatures_single:
  "extractKeystrokeFeatures [\<lparr>key_code = Some code, key_ts = Some t\<rparr>] =
     Inr [(''keyCount'', 1), (''keyInterKeyDelayMeanMs'', 0), (''keyInterKeyDelayStd'', 0),
          (''keyRapidPresses'', 0), (''keyEntropy'', calculateEntropy [code]),
          (''keyRatePerSec'', 0)]"
  by (simp add: extractKeystrokeFeatures_def bindE_def getitem_def dict_get_def)

lemma extractTemporalFeatures_Nil:
  "extractTemporalFeatures [] [] [] =
     Inr [(''batchDurationMs'', 0), (''eventRatePerSec'', 0), (''signalDiversityEntropy'', 0),
          (''clickToMoveRatio'', 0), (''keyToMoveRatio'', 0)]"
  by (simp add: extractTemporalFeatures_def bindE_def)

lemma extractTemporalFeatures_single_key:
  "extractTemporalFeatures [] [] [\<lparr>key_code = Some code, key_ts = Some t\<rparr>] =
     Inr [(''batchDurationMs'', 0), (''eventRatePerSec'', 0),
          (''signalDiversityEntropy'', calculateEntropy [0, 0, 1::real]),
          (''clickToMoveRatio'', 0), (''keyToMoveRatio'', 0)]"
  by (simp add: extractTemporalFeatures_def bindE_def getitem_def)

lemma extractBatchFeatures_no_events:
  "extractBatchFeatures self
       \<lparr>batch_mouseMoves = Some [], batch_clicks = Some [], batch_keys = Some []\<rparr> =
     Inr [(''batch_event_count'', 0), (''has_mouse_moves'', 0), (''has_clicks'', 0),
          (''has_keys'', 0),
          (''mouseMoveCount'', 0), (''mouseAvgVelocity'', 0), (''mouseStdVelocity'', 0),
          (''mouseMaxVelocity'', 0), (''mousePauseCount'', 0), (''mouseAvgPauseDurationMs'', 0),
          (''mousePathEfficiency'', 0), (''mouseAngularVelocityStd'', 0),
          (''mouseHoverTimeRatio'', 0), (''mouseHoverFrequency'', 0),
          (''clickCount'', 0), (''clickRatePerSec'', 0), (''clickIntervalMeanMs'', 0),
          (''clickIntervalStdMs'', 0), (''clickIntervalMinMs'', 0), (''clickIntervalMaxMs'', 0),
          (''clickClusteringRatio'', 0), (''clickLeftRatio'', 0),
          (''keyCount'', 0), (''keyRatePerSec'', 0), (''keyInterKeyDelayMeanMs'', 0),
          (''keyInterKeyDelayStdMs'', 0), (''keyEntropy'', 0), (''keyRapidPresses'', 0),
          (''batchDurationMs'', 0), (''eventRatePerSec'', 0), (''signalDiversityEntropy'', 0),
          (''clickToMoveRatio'', 0), (''keyToMoveRatio'', 0)]"
  by (simp add: extractBatchFeatures_def extractMouseFeatures_def extractClickFeatures_Nil
      extractKeystrokeFeatures_Nil extractTemporalFeatures_Nil bindE_def dict_get_def
      dict_update_def)

lemma extractBatchFeatures_single_key:
  "extractBatchFeatures self
       \<lparr>batch_mouseMoves = Some [], batch_clicks = Some [],
        batch_keys = Some [\<lparr>key_code = Some code, key_ts = Some t\<rparr>]\<rparr> =
     Inr [(''batch_event_count'', 1), (''has_mouse_moves'', 0), (''has_clicks'', 0),
          (''has_keys'', 1),
          (''mouseMoveCount'', 0), (''mouseAvgVelocity'', 0), (''mouseStdVelocity'', 0),
          (''mouseMaxVelocity'', 0), (''mousePauseCount'', 0), (''mouseAvgPauseDurationMs'', 0),
          (''mousePathEfficiency'', 0), (''mouseAngularVelocityStd'', 0),
          (''mouseHoverTimeRatio'', 0), (''mouseHoverFrequency'', 0),
          (''clickCount'', 0), (''clickRatePerSec'', 0), (''clickIntervalMeanMs'', 0),
          (''clickIntervalStdMs'', 0), (''clickIntervalMinMs'', 0), (''clickIntervalMaxMs'', 0),
          (''clickClusteringRatio'', 0), (''clickLeftRatio'', 0),
          (''keyCount'', 1), (''keyInterKeyDelayMeanMs'', 0), (''keyInterKeyDelayStd'', 0),
          (''keyRapidPresses'', 0), (''keyEntropy'', calculateEntropy [code]),
          (''keyRatePerSec'', 0),
          (''batchDurationMs'', 0), (''eventRatePerSec'', 0),
          (''signalDiversityEntropy'', calculateEntropy [0, 0, 1::real]),
          (''clickToMoveRatio'', 0), (''keyToMoveRatio'', 0)]"
  by (simp add: extractBatchFeatures_def extractMouseFeatures_def extractClickFeatures_Nil
      extractKeystrokeFeatures_single extractTemporalFeatures_single_key bindE_def dict_get_def
      dict_update_def)

text \<open>
  C2. The claim is that any two batches yield feature mappings with the same key set.
  The keystroke extractor names the standard deviation of the inter-key delays
  \<open>keyInterKeyDelayStdMs\<close> when the key list is empty and \<open>keyInterKeyDelayStd\<close>
  otherwise, so a batch without keys and a batch with one key yield different key sets.
\<close>

theorem extractBatchFeatures_key_sets_differ:
  "\<exists>fa fb.
     extractBatchFeatures FeatureExtractor_default
       \<lparr>batch_mouseMoves = Some [], batch_clicks = Some [], batch_keys = Some []\<rparr> = Inr fa \<and>
     extractBatchFeatures FeatureExtractor_default
       \<lparr>batch_mouseMoves = Some [], batch_clicks = Some [],
        batch_keys = Some [\<lparr>key_code = Some ''KeyA'', key_ts = Some 1000\<rparr>]\<rparr> = Inr fb \<and>
     ''keyInterKeyDelayStdMs'' \<in> keys_of fa \<and> ''keyInterKeyDelayStdMs'' \<notin> keys_of fb \<and>
     ''keyInterKeyDelayStd'' \<in> keys_of fb \<and> ''keyInterKeyDelayStd'' \<notin> keys_of fa \<and>
     keys_of fa \<noteq> keys_of fb"
proof -
  let ?fa = "[(''batch_event_count'', 0::real), (''has_mouse_moves'', 0), (''has_clicks'', 0),
          (''has_keys'', 0),
          (''mouseMoveCount'', 0), (''mouseAvgVelocity'', 0), (''mouseStdVelocity'', 0),
          (''mouseMaxVelocity'', 0), (''mousePauseCount'', 0), (''mouseAvgPauseDurationMs'', 0),
          (''mousePathEfficiency'', 0), (''mouseAngularVelocityStd'', 0),
          (''mouseHoverTimeRatio'', 0), (''mouseHoverFrequency'', 0),
          (''clickCount'', 0), (''clickRatePerSec'', 0), (''clickIntervalMeanMs'', 0),
          (''clickIntervalStdMs'', 0), (''clickIntervalMinMs'', 0), (''clickIntervalMaxMs'', 0),
          (''clickClusteringRatio'', 0), (''clickLeftRatio'', 0),
          (''keyCount'', 0), (''keyRatePerSec'', 0), (''keyInterKeyDelayMeanMs'', 0),
          (''keyInterKeyDelayStdMs'', 0), (''keyEntropy'', 0), (''keyRapidPresses'', 0),
          (''batchDurationMs'', 0), (''eventRatePerSec'', 0), (''signalDiversityEntropy'', 0),
          (''clickToMoveRatio'', 0), (''keyToMoveRatio'', 0)]"
  let ?fb = "[(''batch_event_count'', 1::real), (''has_mouse_moves'', 0), (''has_clicks'', 0),
          (''has_keys'', 1),
          (''mouseMoveCount'', 0), (''mouseAvgVelocity'', 0), (''mouseStdVelocity'', 0),
          (''mouseMaxVelocity'', 0), (''mousePauseCount'', 0), (''mouseAvgPauseDurationMs'', 0),
          (''mousePathEfficiency'', 0), (''mouseAngularVelocityStd'', 0),
          (''mouseHoverTimeRatio'', 0), (''mouseHoverFrequency'', 0),
          (''clickCount'', 0), (''clickRatePerSec'', 0), (''clickIntervalMeanMs'', 0),
          (''clickIntervalStdMs'', 0), (''clickIntervalMinMs'', 0), (''clickIntervalMaxMs'', 0),
          (''clickClusteringRatio'', 0), (''clickLeftRatio'', 0),
          (''keyCount'', 1), (''keyInterKeyDelayMeanMs'', 0), (''keyInterKeyDelayStd'', 0),
          (''keyRapidPresses'', 0), (''keyEntropy'', calculateEntropy [''KeyA'']),
          (''keyRatePerSec'', 0),
          (''batchDurationMs'', 0), (''eventRatePerSec'', 0),
          (''signalDiversityEntropy'', calculateEntropy [0, 0, 1::real]),
          (''clickToMoveRatio'', 0), (''keyToMoveRatio'', 0)]"
  have a: "''keyInterKeyDelayStdMs'' \<in> keys_of ?fa" by (simp add: keys_of_def)
  have b: "''keyInterKeyDelayStdMs'' \<notin> keys_of ?fb" by (simp add: keys_of_def)
  have c: "''keyInterKeyDelayStd'' \<in> keys_of ?fb" by (simp add: keys_of_def)
  have d: "''keyInterKeyDelayStd'' \<notin> keys_of ?fa" by (simp add: keys_of_def)
  from a b have e: "keys_of ?fa \<noteq> keys_of ?fb" by blast
  show ?thesis
    using extractBatchFeatures_no_events [of FeatureExtractor_default]
      extractBatchFeatures_single_key [of FeatureExtractor_default "''KeyA''" 1000]
      a b c d e by blast
qed

section \<open>Malformed events\<close>

lemma mapE_getitem_ok:
  "list_all (\<lambda>e. fld e \<noteq> None) es \<Longrightarrow>
   mapE (\<lambda>e. getitem (fld e) k) es = Inr (map (\<lambda>e. the (fld e)) es)"
  by (rule mapE_total) (auto simp: list_all_iff getitem_def)

lemma mapE_getitem_fail:
  "\<not> list_all (\<lambda>e. fld e \<noteq> None) es \<Longrightarrow> mapE (\<lambda>e. getitem (fld e) k) es = Inl (KeyError k)"
  by (induction es) (auto simp: bindE_def getitem_def split: option.splits)

lemma mapE_coords_fail:
  "\<not> list_all (\<lambda>m. move_x m \<noteq> None \<and> move_y m \<noteq> None) ms \<Longrightarrow>
   \<exists>k. mapE (\<lambda>m. bindE (getitem (move_x m) ''x'') (\<lambda>vx.
               bindE (getitem (move_y m) ''y'') (\<lambda>vy. Inr (vx, vy)))) ms = Inl (KeyError k)"
  by (induction ms) (auto simp: bindE_def getitem_def split: option.splits sum.splits)

lemma mapE_coords_ok:
  "list_all (\<lambda>m. move_x m \<noteq> None \<and> move_y m \<noteq> None) ms \<Longrightarrow>
   mapE (\<lambda>m. bindE (getitem (move_x m) ''x'') (\<lambda>vx.
               bindE (getitem (move_y m) ''y'') (\<lambda>vy. Inr (vx, vy)))) ms = Inr (coordinates ms)"
  unfolding coordinates_def
  by (rule mapE_total) (auto simp: list_all_iff bindE_def getitem_def)

lemma extractCoordinatesAndTimes_fail:
  assumes "2 \<le> length moves" and "\<not> list_all well_formed_move moves"
  shows "\<exists>k. extractCoordinatesAndTimes moves = Inl (KeyError k)"
proof (cases "list_all (\<lambda>m. move_x m \<noteq> None \<and> move_y m \<noteq> None) moves")
  case False
  from mapE_coords_fail [OF False] obtain k where
    "mapE (\<lambda>m. bindE (getitem (move_x m) ''x'') (\<lambda>vx.
               bindE (getitem (move_y m) ''y'') (\<lambda>vy. Inr (vx, vy)))) moves = Inl (KeyError k)"
    by blast
  then show ?thesis using assms(1) by (simp add: extractCoordinatesAndTimes_def bindE_def)
next
  case True
  then have "\<not> list_all (\<lambda>m. move_ts m \<noteq> None) moves"
    using assms(2) by (auto simp: list_all_iff well_formed_move_def)
  from mapE_getitem_fail [OF this, of "''ts''"] mapE_coords_ok [OF True]
  show ?thesis using assms(1) by (simp add: extractCoordinatesAndTimes_def bindE_def)
qed

lemma extractMouseFeatures_fail:
  assumes "2 \<le> length moves" and "\<not> list_all well_formed_move moves"
  shows "\<exists>k. extractMouseFeatures self moves = Inl (KeyError k)"
proof -
  from extractCoordinatesAndTimes_fail [OF assms] obtain k where
    "extractCoordinatesAndTimes moves = Inl (KeyError k)" by blast
  then show ?thesis using assms(1) by (simp add: extractMouseFeatures_def bindE_def)
qed

lemma extractMouseFeatures_ok:
  assumes "length moves < 2 \<or> list_all well_formed_move moves"
  shows "\<exists>f. extractMouseFeatures self moves = Inr f"
proof (cases "length moves < 2")
  case True
  then show ?thesis by (simp add: extractMouseFeatures_def)
next
  case False
  then have "2 \<le> length moves" "list_all well_formed_move moves" using assms by auto
  from extractMouseFeatures_path_efficiency [OF this] show ?thesis by blast
qed

lemma py_min_nonempty: "vs \<noteq> [] \<Longrightarrow> \<exists>v. py_min vs = Inr v"
  by (cases vs) simp_all

lemma np_diff_nonempty: "1 < length vs \<Longrightarrow> np_diff vs \<noteq> []"
  by (simp add: np_diff_def)

lemma extractClickFeatures_ok:
  assumes "length clicks \<le> 1 \<or> list_all (\<lambda>c. click_ts c \<noteq> None) clicks"
  shows "\<exists>f. extractClickFeatures clicks = Inr f"
proof (cases "length clicks \<le> 1")
  case True
  then show ?thesis by (simp add: extractClickFeatures_def bindE_def Let_def)
next
  case False
  then have all: "list_all (\<lambda>c. click_ts c \<noteq> None) clicks" using assms by simp
  define timestamps where "timestamps = map (\<lambda>c. the (click_ts c)) clicks"
  have ts: "mapE (\<lambda>c. getitem (click_ts c) ''ts'') clicks = Inr timestamps"
    unfolding timestamps_def by (rule mapE_getitem_ok [OF all])
  have "1 < length timestamps" using False by (simp add: timestamps_def)
  then have "np_diff timestamps \<noteq> []" by (rule np_diff_nonempty)
  then obtain mn mx where
    "py_min (np_diff timestamps) = Inr mn" "py_max (np_diff timestamps) = Inr mx"
    using py_min_nonempty py_max_nonempty by blast
  then show ?thesis
    using False unfolding extractClickFeatures_def Let_def ts by (simp add: bindE_def)
qed

lemma extractClickFeatures_fail:
  assumes "1 < length clicks" and "\<not> list_all (\<lambda>c. click_ts c \<noteq> None) clicks"
  shows "extractClickFeatures clicks = Inl (KeyError ''ts'')"
  using assms(1) unfolding extractClickFeatures_def Let_def mapE_getitem_fail [OF assms(2)]
  by (auto simp: bindE_def)

lemma extractKeystrokeFeatures_ok:
  assumes all: "list_all (\<lambda>k. key_ts k \<noteq> None) keys"
  shows "\<exists>f. extractKeystrokeFeatures keys = Inr f"
proof (cases "keys = []")
  case True
  then show ?thesis by (simp add: extractKeystrokeFeatures_def)
next
  case False
  define timestamps where "timestamps = map (\<lambda>k. the (key_ts k)) keys"
  have ts: "mapE (\<lambda>k. getitem (key_ts k) ''ts'') keys = Inr timestamps"
    unfolding timestamps_def by (rule mapE_getitem_ok [OF all])
  have "timestamps \<noteq> []" using False by (simp add: timestamps_def)
  then obtain mn mx where "py_min timestamps = Inr mn" "py_max timestamps = Inr mx"
    using py_min_nonempty py_max_nonempty by blast
  then show ?thesis
    using False unfolding extractKeystrokeFeatures_def interKeyDelays_def Let_def ts
    by (simp add: bindE_def)
qed

lemma extractKeystrokeFeatures_fail:
  assumes "\<not> list_all (\<lambda>k. key_ts k \<noteq> None) keys"
  shows "extractKeystrokeFeatures keys = Inl (KeyError ''ts'')"
proof -
  have "keys \<noteq> []" using assms by auto
  then show ?thesis
    unfolding extractKeystrokeFeatures_def interKeyDelays_def Let_def mapE_getitem_fail [OF assms]
    by (simp add: bindE_def)
qed

lemma extractTemporalFeatures_ok:
  assumes m: "list_all (\<lambda>m. move_ts m \<noteq> None) moves"
    and c: "list_all (\<lambda>c. click_ts c \<noteq> None) clicks"
    and k: "list_all (\<lambda>k. key_ts k \<noteq> None) keys"
  shows "\<exists>f. extractTemporalFeatures moves clicks keys = Inr f"
proof -
  define mts where "mts = map (\<lambda>m. the (move_ts m)) moves"
  define cts where "cts = map (\<lambda>c. the (click_ts c)) clicks"
  define kts where "kts = map (\<lambda>k. the (key_ts k)) keys"
  have e: "mapE (\<lambda>m. getitem (move_ts m) ''ts'') moves = Inr mts"
    "mapE (\<lambda>c. getitem (click_ts c) ''ts'') clicks = Inr cts"
    "mapE (\<lambda>k. getitem (key_ts k) ''ts'') keys = Inr kts"
    unfolding mts_def cts_def kts_def
    by (rule mapE_getitem_ok [OF m], rule mapE_getitem_ok [OF c], rule mapE_getitem_ok [OF k])
  show ?thesis
  proof (cases "2 \<le> length (mts @ cts @ kts)")
    case True
    then have "mts @ cts @ kts \<noteq> []" by auto
    then obtain mn mx where
      "py_min (mts @ cts @ kts) = Inr mn" "py_max (mts @ cts @ kts) = Inr mx"
      using py_min_nonempty py_max_nonempty by blast
    then show ?thesis
      using True unfolding extractTemporalFeatures_def Let_def e by (simp add: bindE_def)
  next
    case False
    then show ?thesis
      unfolding extractTemporalFeatures_def Let_def e by (simp add: bindE_def)
  qed
qed

lemma extractTemporalFeatures_fail:
  assumes "\<not> (list_all (\<lambda>m. move_ts m \<noteq> None) moves \<and>
              list_all (\<lambda>c. click_ts c \<noteq> None) clicks \<and>
              list_all (\<lambda>k. key_ts k \<noteq> None) keys)"
  shows "extractTemporalFeatures moves clicks keys = Inl (KeyError ''ts'')"
proof (cases "list_all (\<lambda>m. move_ts m \<noteq> None) moves")
  case False
  show ?thesis
    unfolding extractTemporalFeatures_def Let_def mapE_getitem_fail [OF False]
    by (simp add: bindE_def)
next
  case m: True
  show ?thesis
  proof (cases "list_all (\<lambda>c. click_ts c \<noteq> None) clicks")
    case False
    show ?thesis
      unfolding extractTemporalFeatures_def Let_def mapE_getitem_ok [OF m]
        mapE_getitem_fail [OF False]
      by (simp add: bindE_def)
  next
    case c: True
    then have k: "\<not> list_all (\<lambda>k. key_ts k \<noteq> None) keys" using assms m by simp
    show ?thesis
      unfolding extractTemporalFeatures_def Let_def mapE_getitem_ok [OF m]
        mapE_getitem_ok [OF c] mapE_getitem_fail [OF k]
      by (simp add: bindE_def)
  qed
qed

lemma mapE_map: "mapE f (map g vs) = mapE (\<lambda>v. f (g v)) vs"
  by (induction vs) simp_all

lemma extractClickFeatures_fill:
  "extractClickFeatures (map (\<lambda>c. c\<lparr>click_button := Some (dict_get (click_button c) 0)\<rparr>) clicks) =
   extractClickFeatures clicks"
  unfolding extractClickFeatures_def Let_def
  by (simp add: mapE_map comp_def dict_get_def cong: if_cong)

lemma extractKeystrokeFeatures_fill:
  "extractKeystrokeFeatures
     (map (\<lambda>k. k\<lparr>key_code := Some (dict_get (key_code k) ''Unknown'')\<rparr>) keys) =
   extractKeystrokeFeatures keys"
  unfolding extractKeystrokeFeatures_def interKeyDelays_def Let_def
  by (simp add: mapE_map comp_def dict_get_def cong: if_cong)

lemma extractTemporalFeatures_fill:
  "extractTemporalFeatures moves
     (map (\<lambda>c. c\<lparr>click_button := Some (dict_get (click_button c) 0)\<rparr>) clicks)
     (map (\<lambda>k. k\<lparr>key_code := Some (dict_get (key_code k) ''Unknown'')\<rparr>) keys) =
   extractTemporalFeatures moves clicks keys"
  unfolding extractTemporalFeatures_def Let_def by (simp add: mapE_map cong: if_cong)

lemma extractBatchFeatures_fill:
  "extractBatchFeatures self (fill_defaults b) = extractBatchFeatures self b"
proof -
  have c: "dict_get (batch_clicks (fill_defaults b)) [] =
        map (\<lambda>c. c\<lparr>click_button := Some (dict_get (click_button c) 0)\<rparr>) (dict_get (batch_clicks b) [])"
    by (cases "batch_clicks b") (simp_all add: fill_defaults_def dict_get_def)
  have k: "dict_get (batch_keys (fill_defaults b)) [] =
        map (\<lambda>k. k\<lparr>key_code := Some (dict_get (key_code k) ''Unknown'')\<rparr>) (dict_get (batch_keys b) [])"
    by (cases "batch_keys b") (simp_all add: fill_defaults_def dict_get_def)
  have m: "batch_mouseMoves (fill_defaults b) = batch_mouseMoves b"
    by (simp add: fill_defaults_def)
  show ?thesis
    unfolding extractBatchFeatures_def c k m Let_def
    by (simp only: extractClickFeatures_fill extractKeystrokeFeatures_fill
        extractTemporalFeatures_fill length_map)
qed

lemma list_ex_not_all: "list_ex (\<lambda>v. f v = None) vs = (\<not> list_all (\<lambda>v. f v \<noteq> None) vs)"
  by (auto simp: list_ex_iff list_all_iff)

lemma extractBatchFeatures_ok:
  assumes "\<not> lacks_timestamp b" and "\<not> lacks_coordinate b"
  shows "\<exists>f. extractBatchFeatures self b = Inr f"
proof -
  define moves where "moves = dict_get (batch_mouseMoves b) []"
  define clicks where "clicks = dict_get (batch_clicks b) []"
  define keys where "keys = dict_get (batch_keys b) []"
  have t: "list_all (\<lambda>m. move_ts m \<noteq> None) moves" "list_all (\<lambda>c. click_ts c \<noteq> None) clicks"
    "list_all (\<lambda>k. key_ts k \<noteq> None) keys"
    using assms(1)
    by (simp_all add: lacks_timestamp_def list_ex_not_all batch_moves_def batch_clicks_list_def
        batch_keys_list_def moves_def clicks_def keys_def)
  have "length moves < 2 \<or> list_all well_formed_move moves"
    using assms(2) t(1)
    by (auto simp: lacks_coordinate_def batch_moves_def moves_def list_ex_iff list_all_iff
        well_formed_move_def)
  from extractMouseFeatures_ok [OF this, of self] obtain fm where
    fm: "extractMouseFeatures self moves = Inr fm" by blast
  from extractClickFeatures_ok [of clicks] t(2) obtain fc where
    fc: "extractClickFeatures clicks = Inr fc" by blast
  from extractKeystrokeFeatures_ok [OF t(3)] obtain fk where
    fk: "extractKeystrokeFeatures keys = Inr fk" by blast
  from extractTemporalFeatures_ok [OF t] obtain ft where
    ft: "extractTemporalFeatures moves clicks keys = Inr ft" by blast
  show ?thesis
    unfolding extractBatchFeatures_def Let_def moves_def [symmetric] clicks_def [symmetric]
      keys_def [symmetric] fm fc fk ft
    by (simp add: bindE_def)
qed

lemma extractBatchFeatures_fail:
  assumes "lacks_timestamp b \<or> lacks_coordinate b"
  shows "\<exists>k. extractBatchFeatures self b = Inl (KeyError k)"
proof -
  define moves where "moves = dict_get (batch_mouseMoves b) []"
  define clicks where "clicks = dict_get (batch_clicks b) []"
  define keys where "keys = dict_get (batch_keys b) []"
  have mouse: "(\<exists>f. extractMouseFeatures self moves = Inr f) \<or>
               (\<exists>k. extractMouseFeatures self moves = Inl (KeyError k))"
    using extractMouseFeatures_ok [of moves self] extractMouseFeatures_fail [of moves self]
    by (cases "length moves < 2 \<or> list_all well_formed_move moves") auto
  have click: "(\<exists>f. extractClickFeatures clicks = Inr f) \<or>
               (\<exists>k. extractClickFeatures clicks = Inl (KeyError k))"
    using extractClickFeatures_ok [of clicks] extractClickFeatures_fail [of clicks]
    by (cases "length clicks \<le> 1 \<or> list_all (\<lambda>c. click_ts c \<noteq> None) clicks") auto
  have key: "(\<exists>f. extractKeystrokeFeatures keys = Inr f) \<or>
             (\<exists>k. extractKeystrokeFeatures keys = Inl (KeyError k))"
    using extractKeystrokeFeatures_ok [of keys] extractKeystrokeFeatures_fail [of keys]
    by (cases "list_all (\<lambda>k. key_ts k \<noteq> None) keys") auto
  show ?thesis
  proof (cases "lacks_coordinate b")
    case True
    then have "2 \<le> length moves" "\<not> list_all well_formed_move moves"
      by (auto simp: lacks_coordinate_def batch_moves_def moves_def list_ex_iff list_all_iff
          well_formed_move_def)
    from extractMouseFeatures_fail [OF this, of self] show ?thesis
      unfolding extractBatchFeatures_def Let_def moves_def [symmetric]
      by (auto simp: bindE_def)
  next
    case False
    then have "lacks_timestamp b" using assms by simp
    then have "\<not> (list_all (\<lambda>m. move_ts m \<noteq> None) moves \<and>
              list_all (\<lambda>c. click_ts c \<noteq> None) clicks \<and>
              list_all (\<lambda>k. key_ts k \<noteq> None) keys)"
      by (simp add: lacks_timestamp_def list_ex_not_all batch_moves_def batch_clicks_list_def
          batch_keys_list_def moves_def clicks_def keys_def)
    from extractTemporalFeatures_fail [OF this] mouse click key show ?thesis
      unfolding extractBatchFeatures_def Let_def moves_def [symmetric] clicks_def [symmetric]
        keys_def [symmetric]
      by (auto simp: bindE_def)
  qed
qed

text \<open>
  C8, as the code has it. Feature extraction raises KeyError to its caller exactly when
  some move, click or key lacks its timestamp, or the batch has at least two moves and
  one of them lacks x or y; otherwise it returns a feature mapping. A missing button
  code and a missing key code raise nothing: the result is that of the batch in which
  the button is 0 and the code is \<open>Unknown\<close>.
\<close>

theorem extractBatchFeatures_missing_fields:
  "(lacks_timestamp b \<or> lacks_coordinate b \<longrightarrow>
      (\<exists>k. extractBatchFeatures self b = Inl (KeyError k))) \<and>
   (\<not> lacks_timestamp b \<and> \<not> lacks_coordinate b \<longrightarrow>
      (\<exists>f. extractBatchFeatures self b = Inr f)) \<and>
   extractBatchFeatures self (fill_defaults b) = extractBatchFeatures self b"
  using extractBatchFeatures_fail [of b self] extractBatchFeatures_ok [of b self]
    extractBatchFeatures_fill [of self b]
  by blast

theorem extractBatchFeatures_missing_fields_witness:
  "lacks_coordinate
     \<lparr>batch_mouseMoves = Some [\<lparr>move_x = Some 1, move_y = Some 2, move_ts = Some 1000\<rparr>,
                               \<lparr>move_x = Some 3, move_y = None, move_ts = Some 1100\<rparr>],
      batch_clicks = Some [], batch_keys = Some []\<rparr> \<and>
   (\<exists>k. extractBatchFeatures FeatureExtractor_default
     \<lparr>batch_mouseMoves = Some [\<lparr>move_x = Some 1, move_y = Some 2, move_ts = Some 1000\<rparr>,
                               \<lparr>move_x = Some 3, move_y = None, move_ts = Some 1100\<rparr>],
      batch_clicks = Some [], batch_keys = Some []\<rparr> = Inl (KeyError k)) \<and>
   \<not> lacks_timestamp
     \<lparr>batch_mouseMoves = Some [],
      batch_clicks = Some [\<lparr>click_ts = Some 1000, click_button = None\<rparr>],
      batch_keys = Some [\<lparr>key_code = None, key_ts = Some 1100\<rparr>]\<rparr> \<and>
   \<not> lacks_coordinate
     \<lparr>batch_mouseMoves = Some [],
      batch_clicks = Some [\<lparr>click_ts = Some 1000, click_button = None\<rparr>],
      batch_keys = Some [\<lparr>key_code = None, key_ts = Some 1100\<rparr>]\<rparr> \<and>
   (\<exists>f. extractBatchFeatures FeatureExtractor_default
     \<lparr>batch_mouseMoves = Some [],
      batch_clicks = Some [\<lparr>click_ts = Some 1000, click_button = None\<rparr>],
      batch_keys = Some [\<lparr>key_code = None, key_ts = Some 1100\<rparr>]\<rparr> = Inr f)"
proof -
  define B1 where "B1 =
     \<lparr>batch_mouseMoves = Some [\<lparr>move_x = Some 1, move_y = Some 2, move_ts = Some (1000::real)\<rparr>,
                               \<lparr>move_x = Some 3, move_y = None, move_ts = Some 1100\<rparr>],
      batch_clicks = Some [], batch_keys = Some []\<rparr>"
  define B2 where "B2 =
     \<lparr>batch_mouseMoves = Some [],
      batch_clicks = Some [\<lparr>click_ts = Some (1000::real), click_button = None\<rparr>],
      batch_keys = Some [\<lparr>key_code = None, key_ts = Some (1100::real)\<rparr>]\<rparr>"
  have a: "lacks_coordinate B1"
    by (simp add: B1_def lacks_coordinate_def batch_moves_def dict_get_def)
  have b: "\<not> lacks_timestamp B2"
    by (simp add: B2_def lacks_timestamp_def batch_moves_def batch_clicks_list_def
        batch_keys_list_def dict_get_def)
  have c: "\<not> lacks_coordinate B2"
    by (simp add: B2_def lacks_coordinate_def batch_moves_def dict_get_def)
  from extractBatchFeatures_missing_fields [of B1 FeatureExtractor_default] a
  have d: "\<exists>k. extractBatchFeatures FeatureExtractor_default B1 = Inl (KeyError k)" by blast
  from extractBatchFeatures_missing_fields [of B2 FeatureExtractor_default] b c
  have e: "\<exists>f. extractBatchFeatures FeatureExtractor_default B2 = Inr f" by blast
  from a b c d e have
    "lacks_coordinate B1 \<and> (\<exists>k. extractBatchFeatures FeatureExtractor_default B1 = Inl (KeyError k)) \<and>
     \<not> lacks_timestamp B2 \<and> \<not> lacks_coordinate B2 \<and>
     (\<exists>f. extractBatchFeatures FeatureExtractor_default B2 = Inr f)"
    by simp
  then show ?thesis unfolding B1_def B2_def .
qed

lemma extractClickFeatures_single:
  "extractClickFeatures [\<lparr>click_ts = t, click_button = None\<rparr>] =
     Inr [(''clickCount'', 1), (''clickRatePerSec'', 0), (''clickIntervalMeanMs'', 0),
          (''clickIntervalStdMs'', 0), (''clickIntervalMinMs'', 0), (''clickIntervalMaxMs'', 0),
          (''clickClusteringRatio'', 0), (''clickLeftRatio'', 1)]"
  by (simp add: extractClickFeatures_def bindE_def dict_get_def)

lemma extractTemporalFeatures_single_click:
  "extractTemporalFeatures [] [\<lparr>click_ts = Some t, click_button = None\<rparr>] [] =
     Inr [(''batchDurationMs'', 0), (''eventRatePerSec'', 0),
          (''signalDiversityEntropy'', calculateEntropy [0, 1, 0::real]),
          (''clickToMoveRatio'', 0), (''keyToMoveRatio'', 0)]"
  by (simp add: extractTemporalFeatures_def bindE_def getitem_def)

text \<open>
  C8, as stated, fails: a batch whose only event is a click without a button code yields
  a feature mapping, with \<open>clickLeftRatio\<close> 1 as if the button were the primary one.
\<close>

theorem missing_button_is_defaulted:
  "extractBatchFeatures FeatureExtractor_default
       \<lparr>batch_mouseMoves = Some [],
        batch_clicks = Some [\<lparr>click_ts = Some 1000, click_button = None\<rparr>],
        batch_keys = Some []\<rparr> =
     Inr [(''batch_event_count'', 1), (''has_mouse_moves'', 0), (''has_clicks'', 1),
          (''has_keys'', 0),
          (''mouseMoveCount'', 0), (''mouseAvgVelocity'', 0), (''mouseStdVelocity'', 0),
          (''mouseMaxVelocity'', 0), (''mousePauseCount'', 0), (''mouseAvgPauseDurationMs'', 0),
          (''mousePathEfficiency'', 0), (''mouseAngularVelocityStd'', 0),
          (''mouseHoverTimeRatio'', 0), (''mouseHoverFrequency'', 0),
          (''clickCount'', 1), (''clickRatePerSec'', 0), (''clickIntervalMeanMs'', 0),
          (''clickIntervalStdMs'', 0), (''clickIntervalMinMs'', 0), (''clickIntervalMaxMs'', 0),
          (''clickClusteringRatio'', 0), (''clickLeftRatio'', 1),
          (''keyCount'', 0), (''keyRatePerSec'', 0), (''keyInterKeyDelayMeanMs'', 0),
          (''keyInterKeyDelayStdMs'', 0), (''keyEntropy'', 0), (''keyRapidPresses'', 0),
          (''batchDurationMs'', 0), (''eventRatePerSec'', 0),
          (''signalDiversityEntropy'', calculateEntropy [0, 1, 0::real]),
          (''clickToMoveRatio'', 0), (''keyToMoveRatio'', 0)]"
  by (simp add: extractBatchFeatures_def extractMouseFeatures_def extractClickFeatures_single
      extractKeystrokeFeatures_Nil extractTemporalFeatures_single_click bindE_def dict_get_def
      dict_update_def)

section \<open>Properties of the session aggregator\<close>

lemma pd_single:
  "pd_mean [v] = Num v" "pd_std [v] = NaN" "pd_min [v] = Num v" "pd_max [v] = Num v"
  "pd_quantile q [v] = Num v"
  by (simp_all add: pd_mean_def pd_std_def pd_min_def pd_max_def pd_quantile_def)

lemma pd_std_pair: "pd_std [a, b] = Num (sqrt (((a - (a + b) / 2)\<^sup>2 + (b - (a + b) / 2)\<^sup>2)))"
  by (simp add: pd_std_def)

lemma np_std_pair: "np_std [a, b] = sqrt (((a - (a + b) / 2)\<^sup>2 + (b - (a + b) / 2)\<^sup>2) / 2)"
  by (simp add: np_std_def np_mean_def)

text \<open>
  C3. The claim is that the session aggregator's \<open>std\<close> is the population standard
  deviation, hence 0 for a session with a single batch and never NaN. The code calls
  \<open>Series.std()\<close>, the sample standard deviation: for the single value of a one-batch
  session the \<open>_std\<close> statistic is NaN, and for the two values 0 and 2 it is
  \<open>sqrt 2\<close> where the population standard deviation (numpy's, used by the extractors)
  is 1.
\<close>

theorem session_std_single_batch:
  "aggregateColumn
     \<lparr>df_columns = [''keyCount'', ''sessionID''],
      df_rows = [[(''keyCount'', Num 3), (''sessionID'', Str ''s1'')]]\<rparr>
     ''keyCount'' [(''sessionID'', Str ''s1''), (''batchCount'', Num 1)] =
   Inr [(''sessionID'', Str ''s1''), (''batchCount'', Num 1),
        (''keyCount_mean'', Num 3), (''keyCount_std'', NaN), (''keyCount_min'', Num 3),
        (''keyCount_max'', Num 3), (''keyCount_p50'', Num 3), (''keyCount_p95'', Num 3)] \<and>
   pd_std [0, 2] = Num (sqrt 2) \<and> np_std [0, 2] = 1"
proof -
  have "(0 - (0 + 2) / 2 :: real)\<^sup>2 + (2 - (0 + 2) / 2)\<^sup>2 = 2" by (simp add: power2_eq_square)
  then have s: "pd_std [0, 2] = Num (sqrt 2)" "np_std [0, 2] = 1"
    by (simp_all only: pd_std_pair np_std_pair) simp_all
  have "aggregateColumn
     \<lparr>df_columns = [''keyCount'', ''sessionID''],
      df_rows = [[(''keyCount'', Num 3), (''sessionID'', Str ''s1'')]]\<rparr>
     ''keyCount'' [(''sessionID'', Str ''s1''), (''batchCount'', Num 1)] =
   Inr [(''sessionID'', Str ''s1''), (''batchCount'', Num 1),
        (''keyCount_mean'', Num 3), (''keyCount_std'', NaN), (''keyCount_min'', Num 3),
        (''keyCount_max'', Num 3), (''keyCount_p50'', Num 3), (''keyCount_p95'', Num 3)]"
    by (simp add: aggregateColumn_def df_getcol_def bindE_def dropna_def to_floats_def pd_single)
  with s show ?thesis by simp
qed

section \<open>Properties of the temporal combiner\<close>

lemma calculateEntropy_three:
  "calculateEntropy [a, b, c] =
     (if a = b \<and> b = c then 0
      else if a = b \<or> a = c \<or> b = c then - (2 / 3 * log 2 (2 / 3)) - 1 / 3 * log 2 (1 / 3)
      else log 2 3)"
  by (auto simp: calculateEntropy_def Counter_def log_divide)

lemma calculateEntropy_three_pattern:
  "(a = b) = (a' = b') \<Longrightarrow> (a = c) = (a' = c') \<Longrightarrow> (b = c) = (b' = c') \<Longrightarrow>
   calculateEntropy [a, b, c] = calculateEntropy [a', b', c']"
  unfolding calculateEntropy_three by auto

lemma extractTemporalFeatures_diversity:
  assumes "extractTemporalFeatures moves clicks keys = Inr features"
  shows "map_of features ''signalDiversityEntropy'' =
           Some (if length moves + length clicks + length keys > 0
                 then calculateEntropy (signalShares moves clicks keys) else 0)"
  using assms
  by (auto simp: extractTemporalFeatures_def bindE_def Let_def signalShares_def
      split: sum.splits if_splits)

text \<open>
  C10. \<open>signalDiversityEntropy\<close> is the entropy utility applied to the list of the three
  shares, so it depends only on which shares are equal to one another: two batches (with
  at least one event each, and a timestamp on every event, so that the combiner returns)
  whose shares have the same equalities get the same value. In particular it is 0 when
  the three signal lists have the same non-zero length.
\<close>

theorem signalDiversityEntropy_equality_pattern:
  assumes "list_all (\<lambda>m. move_ts m \<noteq> None) m1"
    and "list_all (\<lambda>c. click_ts c \<noteq> None) c1"
    and "list_all (\<lambda>k. key_ts k \<noteq> None) k1"
    and "list_all (\<lambda>m. move_ts m \<noteq> None) m2"
    and "list_all (\<lambda>c. click_ts c \<noteq> None) c2"
    and "list_all (\<lambda>k. key_ts k \<noteq> None) k2"
    and "0 < length m1 + length c1 + length k1"
    and "0 < length m2 + length c2 + length k2"
    and "(signalShares m1 c1 k1 ! 0 = signalShares m1 c1 k1 ! 1) =
         (signalShares m2 c2 k2 ! 0 = signalShares m2 c2 k2 ! 1)"
    and "(signalShares m1 c1 k1 ! 0 = signalShares m1 c1 k1 ! 2) =
         (signalShares m2 c2 k2 ! 0 = signalShares m2 c2 k2 ! 2)"
    and "(signalShares m1 c1 k1 ! 1 = signalShares m1 c1 k1 ! 2) =
         (signalShares m2 c2 k2 ! 1 = signalShares m2 c2 k2 ! 2)"
  shows "\<exists>f1 f2.
           extractTemporalFeatures m1 c1 k1 = Inr f1 \<and>
           extractTemporalFeatures m2 c2 k2 = Inr f2 \<and>
           map_of f1 ''signalDiversityEntropy'' =
             Some (calculateEntropy (signalShares m1 c1 k1)) \<and>
           map_of f1 ''signalDiversityEntropy'' = map_of f2 ''signalDiversityEntropy'' \<and>
           (length m1 = length c1 \<and> length c1 = length k1 \<longrightarrow>
              map_of f1 ''signalDiversityEntropy'' = Some 0)"
proof -
  from extractTemporalFeatures_ok [OF assms(1-3)] obtain f1 where
    r1: "extractTemporalFeatures m1 c1 k1 = Inr f1" by blast
  from extractTemporalFeatures_ok [OF assms(4-6)] obtain f2 where
    r2: "extractTemporalFeatures m2 c2 k2 = Inr f2" by blast
  have e1: "map_of f1 ''signalDiversityEntropy'' = Some (calculateEntropy (signalShares m1 c1 k1))"
    using extractTemporalFeatures_diversity [OF r1] assms(7) by simp
  have e2: "map_of f2 ''signalDiversityEntropy'' = Some (calculateEntropy (signalShares m2 c2 k2))"
    using extractTemporalFeatures_diversity [OF r2] assms(8) by simp
  have same: "calculateEntropy (signalShares m1 c1 k1) = calculateEntropy (signalShares m2 c2 k2)"
    using assms(9-11) unfolding signalShares_def Let_def
    by (intro calculateEntropy_three_pattern) simp_all
  have zero: "calculateEntropy (signalShares m1 c1 k1) = 0"
    if "length m1 = length c1 \<and> length c1 = length k1"
    using that by (simp add: signalShares_def calculateEntropy_three)
  from r1 r2 e1 e2 same zero show ?thesis by simp
qed

theorem signalDiversityEntropy_equality_pattern_witness:
  "extractTemporalFeatures
       [\<lparr>move_x = Some 0, move_y = Some 0, move_ts = Some 1\<rparr>]
       [\<lparr>click_ts = Some 2, click_button = Some 0\<rparr>]
       [\<lparr>key_code = Some ''KeyA'', key_ts = Some 3\<rparr>] =
     Inr [(''batchDurationMs'', 2), (''eventRatePerSec'', 1500),
          (''signalDiversityEntropy'', calculateEntropy [1 / 3, 1 / 3, 1 / 3 :: real]),
          (''clickToMoveRatio'', 1), (''keyToMoveRatio'', 1)] \<and>
   map_of [(''batchDurationMs'', 2), (''eventRatePerSec'', 1500),
          (''signalDiversityEntropy'', calculateEntropy [1 / 3, 1 / 3, 1 / 3 :: real]),
          (''clickToMoveRatio'', 1), (''keyToMoveRatio'', 1)] ''signalDiversityEntropy'' = Some 0"
proof -
  define m where "m = [\<lparr>move_x = Some 0, move_y = Some 0, move_ts = Some (1::real)\<rparr>]"
  define c where "c = [\<lparr>click_ts = Some (2::real), click_button = Some 0\<rparr>]"
  define k where "k = [\<lparr>key_code = Some ''KeyA'', key_ts = Some (3::real)\<rparr>]"
  define f where "f = [(''batchDurationMs'', 2), (''eventRatePerSec'', 1500),
          (''signalDiversityEntropy'', calculateEntropy [1 / 3, 1 / 3, 1 / 3 :: real]),
          (''clickToMoveRatio'', 1), (''keyToMoveRatio'', 1)]"
  have run: "extractTemporalFeatures m c k = Inr f"
    by (simp add: m_def c_def k_def f_def extractTemporalFeatures_def bindE_def getitem_def)
  have wf: "list_all (\<lambda>m. move_ts m \<noteq> None) m" "list_all (\<lambda>c. click_ts c \<noteq> None) c"
    "list_all (\<lambda>k. key_ts k \<noteq> None) k"
    by (simp_all add: m_def c_def k_def)
  have pos: "0 < length m + length c + length k" by (simp add: m_def)
  have len: "length m = length c \<and> length c = length k" by (simp add: m_def c_def k_def)
  from signalDiversityEntropy_equality_pattern [OF wf wf pos pos refl refl refl] len
  obtain f1 where "extractTemporalFeatures m c k = Inr f1"
    and "map_of f1 ''signalDiversityEntropy'' = Some 0"
    by blast
  with run have "extractTemporalFeatures m c k = Inr f \<and>
      map_of f ''signalDiversityEntropy'' = Some 0" by simp
  then show ?thesis unfolding m_def c_def k_def f_def .
qed

end
